theory Spec2Isabelle
  imports
    Main
    "HOL-Library.Word"
    "HOL-Library.Multiset"
    "HOL-Library.Char_ord"
    "HOL-Library.List_Lexorder"
begin

section \<open>EdgeGuard: hardware fingerprinting and drift detection\<close>

text \<open>
  A shallow embedding of the EdgeGuard watchdog (the file-backed program, package
  \<open>main\<close>, and the salt handling of its \<open>wasm-binary\<close> variant). Go strings and
  byte slices are \<open>string\<close> (lists of 8-bit characters), Go errors are values of
  the type \<open>error\<close>, every function that can fail returns a sum with the error on
  the left, and every effect (HTTP request, file access, log line, sleep) is an
  \<open>event\<close> of the cycle that performed it.
\<close>

subsection \<open>Errors\<close>

text \<open>
  \<open>New m\<close> is an error with message \<open>m\<close>; \<open>Wrap p e\<close> is
  \<^verbatim>\<open>fmt.Errorf(p + ": %w", e)\<close>.
\<close>

datatype error = New string | Wrap string error

fun Error :: "error \<Rightarrow> string" where
  "Error (New m) = m"
| "Error (Wrap p e) = p @ '': '' @ Error e"

subsection \<open>Functions of the Go standard library\<close>

text \<open>
  Modelled from the spec: \<^verbatim>\<open>bytes.TrimSpace\<close> belongs to the Go standard library and is
  not part of the repository; the spec says that records are "trimmed of surrounding
  whitespace on read". White space is every rune with Unicode's White Space property:
  the ASCII characters TAB, LF, VT, FF, CR and SPACE, and in UTF-8 the two-byte runes
  U+0085 and U+00A0 and the three-byte runes U+1680, U+2000 to U+200A, U+2028, U+2029,
  U+202F, U+205F and U+3000. A byte sequence that is not one of these encodings is not
  white space.
\<close>

definition asciiSpace :: "char \<Rightarrow> bool" where
  "asciiSpace c = (let n = (of_char c :: nat) in (9 \<le> n \<and> n \<le> 13) \<or> n = 32)"

definition space2 :: "char \<Rightarrow> char \<Rightarrow> bool" where
  "space2 a b =
     (let x = (of_char a :: nat); y = (of_char b :: nat)
      in x = 0xC2 \<and> (y = 0x85 \<or> y = 0xA0))"

definition space3 :: "char \<Rightarrow> char \<Rightarrow> char \<Rightarrow> bool" where
  "space3 a b c =
     (let x = (of_char a :: nat); y = (of_char b :: nat); z = (of_char c :: nat)
      in (x = 0xE1 \<and> y = 0x9A \<and> z = 0x80)
       \<or> (x = 0xE2 \<and> y = 0x80 \<and> ((0x80 \<le> z \<and> z \<le> 0x8A) \<or> z = 0xA8 \<or> z = 0xA9 \<or> z = 0xAF))
       \<or> (x = 0xE2 \<and> y = 0x81 \<and> z = 0x9F)
       \<or> (x = 0xE3 \<and> y = 0x80 \<and> z = 0x80))"

text \<open>
  \<open>trimHead s1 s2 s3\<close> removes the leading runes that \<open>s1\<close>, \<open>s2\<close> or \<open>s3\<close>
  recognise (by their one, two or three bytes).
\<close>

fun trimHead ::
  "(char \<Rightarrow> bool) \<Rightarrow> (char \<Rightarrow> char \<Rightarrow> bool) \<Rightarrow> (char \<Rightarrow> char \<Rightarrow> char \<Rightarrow> bool) \<Rightarrow> string \<Rightarrow> string"
where
  "trimHead s1 s2 s3 (a # b # c # r) =
     (if s1 a then trimHead s1 s2 s3 (b # c # r)
      else if s2 a b then trimHead s1 s2 s3 (c # r)
      else if s3 a b c then trimHead s1 s2 s3 r
      else a # b # c # r)"
| "trimHead s1 s2 s3 [a, b] =
     (if s1 a then trimHead s1 s2 s3 [b] else if s2 a b then [] else [a, b])"
| "trimHead s1 s2 s3 [a] = (if s1 a then [] else [a])"
| "trimHead s1 s2 s3 [] = []"

definition TrimLeft :: "string \<Rightarrow> string" where
  "TrimLeft s = trimHead asciiSpace space2 space3 s"

definition TrimRight :: "string \<Rightarrow> string" where
  "TrimRight s =
     rev (trimHead asciiSpace (\<lambda>b a. space2 a b) (\<lambda>c b a. space3 a b c) (rev s))"

definition TrimSpace :: "string \<Rightarrow> string" where
  "TrimSpace s = TrimRight (TrimLeft s)"

text \<open>
  Modelled from the spec: \<^verbatim>\<open>base64.StdEncoding.EncodeToString\<close> belongs to the Go standard
  library; the spec says the salt is "base64-encoded for storage". The standard
  alphabet with \<open>=\<close> padding: three bytes become four characters.
\<close>

definition encodeStd :: string where
  "encodeStd = ''ABCDEFGHIJKLMNOPQRSTUVWXYZabcdefghijklmnopqrstuvwxyz0123456789+/''"

definition b64 :: "nat \<Rightarrow> char" where
  "b64 i = encodeStd ! (i mod 64)"

fun EncodeToString :: "string \<Rightarrow> string" where
  "EncodeToString (a # b # c # r) =
     (let x = (of_char a :: nat); y = (of_char b :: nat); z = (of_char c :: nat)
      in [b64 (x div 4), b64 ((x mod 4) * 16 + y div 16),
          b64 ((y mod 16) * 4 + z div 64), b64 (z mod 64)] @ EncodeToString r)"
| "EncodeToString [a, b] =
     (let x = (of_char a :: nat); y = (of_char b :: nat)
      in [b64 (x div 4), b64 ((x mod 4) * 16 + y div 16), b64 ((y mod 16) * 4), CHR ''=''])"
| "EncodeToString [a] =
     (let x = (of_char a :: nat)
      in [b64 (x div 4), b64 ((x mod 4) * 16), CHR ''='', CHR ''=''])"
| "EncodeToString [] = []"

text \<open>
  Modelled from the spec: \<^verbatim>\<open>fmt.Sprintf("%x", hash)\<close> on the \<open>[32]byte\<close> array that
  \<^verbatim>\<open>sha256.Sum256\<close> returns; the spec says the digest is encoded "as lowercase hex".
  The array is a \<open>256 word\<close> whose most significant byte is element 0; every byte
  prints as two lowercase hexadecimal digits.
\<close>

definition ldigits :: string where
  "ldigits = ''0123456789abcdef''"

definition hexByte :: "nat \<Rightarrow> string" where
  "hexByte n = [ldigits ! ((n div 16) mod 16), ldigits ! (n mod 16)]"

definition byteAt :: "256 word \<Rightarrow> nat \<Rightarrow> nat" where
  "byteAt h i = unat (drop_bit (8 * (31 - i)) h) mod 256"

definition Sprintf_x :: "256 word \<Rightarrow> string" where
  "Sprintf_x h = concat (map (\<lambda>i. hexByte (byteAt h i)) [0..<32])"

text \<open>
  Modelled from the spec: \<^verbatim>\<open>strconv.Itoa\<close> and \<^verbatim>\<open>strconv.Atoi\<close> of the Go standard
  library (the spec: "PERIOD: poll interval in seconds; non-numeric or \<open>\<le> 0\<close> falls
  back to default"). \<open>Atoi\<close> accepts an optional sign followed by at least one decimal
  digit, and fails on a value outside the 64-bit \<open>int\<close>. The program tests its error
  and never prints it.
\<close>

fun utoa :: "nat \<Rightarrow> string" where
  "utoa n = (if n < 10 then [ldigits ! n] else utoa (n div 10) @ [ldigits ! (n mod 10)])"

definition Itoa :: "int \<Rightarrow> string" where
  "Itoa i = (if i < 0 then CHR ''-'' # utoa (nat (- i)) else utoa (nat i))"

definition isDigit :: "char \<Rightarrow> bool" where
  "isDigit c = (48 \<le> (of_char c :: nat) \<and> (of_char c :: nat) \<le> 57)"

definition digitsVal :: "string \<Rightarrow> int" where
  "digitsVal s = foldl (\<lambda>n c. n * 10 + (int (of_char c) - 48)) 0 s"

definition Atoi :: "string \<Rightarrow> error + int" where
  "Atoi s =
     (let neg = (s \<noteq> [] \<and> hd s = CHR ''-'');
          ds = (if s \<noteq> [] \<and> (hd s = CHR ''-'' \<or> hd s = CHR ''+'') then tl s else s)
      in if ds = [] \<or> \<not> list_all isDigit ds
         then Inl (New (''strconv.Atoi: parsing '' @ s @ '': invalid syntax''))
         else let v = (if neg then - digitsVal ds else digitsVal ds)
              in if v < - (2 ^ 63) \<or> 2 ^ 63 \<le> v
                 then Inl (New (''strconv.Atoi: parsing '' @ s @ '': value out of range''))
                 else Inr v)"

subsection \<open>JSON values and \<^verbatim>\<open>json.Marshal\<close>\<close>

text \<open>
  The values \<^verbatim>\<open>json.Unmarshal\<close> stores in an \<^verbatim>\<open>interface{}\<close>: \<open>nil\<close>, \<open>bool\<close>,
  \<open>float64\<close> (its 64 bits), \<open>string\<close>, \<open>[]interface{}\<close> and
  \<open>map[string]interface{}\<close>. A Go map is the list of its entries; \<^verbatim>\<open>json.Marshal\<close>
  sorts them by key, so that their order in the list does not matter.
\<close>

datatype json =
    JNull
  | JBool bool
  | JNumber "64 word"
  | JString string
  | JArray "json list"
  | JObject "(string \<times> json) list"

type_synonym gomap = "(string \<times> json) list"

text \<open>
  The functions of the standard library that the model takes as parameters: the hash
  function, the JSON parser, and how \<^verbatim>\<open>encoding/json\<close> prints a \<open>float64\<close> and quotes
  a string.
\<close>

record golib =
  sha256_Sum256 :: "string \<Rightarrow> 256 word"
  json_Unmarshal :: "string \<Rightarrow> error + json"
  json_float :: "64 word \<Rightarrow> string"
  json_quote :: "string \<Rightarrow> string"

fun commas :: "string list \<Rightarrow> string" where
  "commas [] = []"
| "commas [x] = x"
| "commas (x # y # r) = x @ '','' @ commas (y # r)"

text \<open>
  Modelled from the spec: \<^verbatim>\<open>json.Marshal\<close> belongs to the Go standard library; the spec
  asks for "a canonical byte form with stable field ordering across runs". A map
  prints its entries sorted by key, an array its elements in order.
\<close>

fun encode :: "golib \<Rightarrow> json \<Rightarrow> string" where
  "encode L JNull = ''null''"
| "encode L (JBool b) = (if b then ''true'' else ''false'')"
| "encode L (JNumber f) = json_float L f"
| "encode L (JString s) = json_quote L s"
| "encode L (JArray xs) = ''['' @ commas (map (encode L) xs) @ '']''"
| "encode L (JObject kvs) =
     ''{'' @ commas (map (\<lambda>(k, v). json_quote L k @ '':'' @ encode L v) (sort_key fst kvs)) @ ''}''"

subsection \<open>The program's constants and data\<close>

definition defaultHALURL :: string where "defaultHALURL = ''iofog''"
definition defaultPort :: string where "defaultPort = ''54331''"
definition deprovisionURL :: string where "deprovisionURL = ''http://iofog:54321/v2/deprovision''"
definition defaultPeriod :: int where "defaultPeriod = 60"
definition saltFile :: string where "saltFile = ''id/salt-key''"
definition hwidFile :: string where "hwidFile = ''id/hw-id''"

text \<open>A field of \<open>HardwareData\<close> is a Go map: \<open>None\<close> is the \<open>nil\<close> map.\<close>

record HardwareData =
  Lscpu :: "gomap option"
  Lspci :: "gomap option"
  Lsusb :: "gomap option"
  Lshw :: "gomap option"
  CpuInfo :: "gomap option"

definition encodeMap :: "golib \<Rightarrow> gomap option \<Rightarrow> string" where
  "encodeMap L m = (case m of None \<Rightarrow> ''null'' | Some kvs \<Rightarrow> encode L (JObject kvs))"

definition fieldName :: "string \<Rightarrow> string" where
  "fieldName n = CHR 0x22 # n @ [CHR 0x22, CHR '':'']"

text \<open>
  Two lists of entries stand for the same Go map when they hold the same entries,
  each key once; two snapshots are the same when their five maps are.
\<close>

definition sameMap :: "gomap option \<Rightarrow> gomap option \<Rightarrow> bool" where
  "sameMap a b =
     (case (a, b) of
        (None, None) \<Rightarrow> True
      | (Some kvs, Some kvs') \<Rightarrow> mset kvs = mset kvs' \<and> distinct (map fst kvs)
      | _ \<Rightarrow> False)"

definition sameData :: "HardwareData \<Rightarrow> HardwareData \<Rightarrow> bool" where
  "sameData d d' =
     (sameMap (Lscpu d) (Lscpu d') \<and> sameMap (Lspci d) (Lspci d') \<and> sameMap (Lsusb d) (Lsusb d')
      \<and> sameMap (Lshw d) (Lshw d') \<and> sameMap (CpuInfo d) (CpuInfo d'))"

text \<open>
  \<^verbatim>\<open>json.Marshal(data)\<close> for a \<open>*HardwareData\<close>: the fields in the order of the struct,
  under the names of their \<open>json\<close> tags. For the values of type \<open>json\<close> it does not fail.
\<close>

definition json_Marshal :: "golib \<Rightarrow> HardwareData \<Rightarrow> error + string" where
  "json_Marshal L data =
     Inr (''{'' @ fieldName ''lscpu'' @ encodeMap L (Lscpu data)
          @ '','' @ fieldName ''lspci'' @ encodeMap L (Lspci data)
          @ '','' @ fieldName ''lsusb'' @ encodeMap L (Lsusb data)
          @ '','' @ fieldName ''lshw'' @ encodeMap L (Lshw data)
          @ '','' @ fieldName ''cpuinfo'' @ encodeMap L (CpuInfo data) @ ''}'')"

subsection \<open>The world outside the process\<close>

text \<open>
  A \<open>world\<close> says how the outside answers during one cycle: the HAL service to a GET,
  the control plane to a request, the operating system to a file read or write (a
  fault, or no fault), and the random source. For a write that fails, \<open>write_left\<close>
  is the content that the failed write has left in the file (\<open>None\<close> when the file
  could not even be opened and is as it was). The files themselves are a map from
  path to content, changed only by the program's writes.
\<close>

record response =
  StatusCode :: nat
  Body :: "error + string"

record request =
  Method :: string
  URL :: string
  Header :: "(string \<times> string) list"

record world =
  http_Get :: "string \<Rightarrow> error + response"
  client_Do :: "request \<Rightarrow> error + response"
  read_fault :: "string \<Rightarrow> error option"
  write_fault :: "string \<Rightarrow> error option"
  write_left :: "string \<Rightarrow> string option"
  rand_Read :: "error + string"

type_synonym files = "string \<rightharpoonup> string"

text \<open>
  The events: a GET of a URL, a request sent to the control plane, a read of a
  file, a write of data to a file (the call, whether it succeeds or not), a read
  of the random source, a line of the log, and a sleep.
\<close>

datatype event =
    EvGet string
  | EvDo request
  | EvRead string
  | EvWrite string string
  | EvRand
  | EvLog string
  | EvSleep "64 word"

text \<open>
  \<^verbatim>\<open>ioutil.ReadFile\<close>: fails on a fault of the operating system and on a missing file.
  \<^verbatim>\<open>ioutil.WriteFile\<close>: replaces the whole content; a failed write leaves the file as it
  was, or with what the world says it has left there. The permissions of the file
  (\<open>0600\<close>) are not modelled.
\<close>

definition ioutil_ReadFile :: "world \<Rightarrow> files \<Rightarrow> string \<Rightarrow> error + string" where
  "ioutil_ReadFile w fs name =
     (case read_fault w name of
        Some err \<Rightarrow> Inl err
      | None \<Rightarrow>
          (case fs name of
             None \<Rightarrow> Inl (New (''open '' @ name @ '': no such file or directory''))
           | Some data \<Rightarrow> Inr data))"

definition ioutil_WriteFile :: "world \<Rightarrow> files \<Rightarrow> string \<Rightarrow> string \<Rightarrow> error option \<times> files" where
  "ioutil_WriteFile w fs name data =
     (case write_fault w name of
        Some err \<Rightarrow>
          (Some err, (case write_left w name of None \<Rightarrow> fs | Some rest \<Rightarrow> fs(name \<mapsto> rest)))
      | None \<Rightarrow> (None, fs(name \<mapsto> data)))"

text \<open>\<^verbatim>\<open>http.NewRequest\<close> with a valid method and a valid URL returns the request.\<close>

definition http_NewRequest :: "string \<Rightarrow> string \<Rightarrow> error + request" where
  "http_NewRequest method url = Inr \<lparr>Method = method, URL = url, Header = []\<rparr>"

subsection \<open>The program\<close>

definition getEnv :: "(string \<rightharpoonup> string) \<Rightarrow> string \<Rightarrow> string \<Rightarrow> string" where
  "getEnv environ key fallback = (case environ key of Some v \<Rightarrow> v | None \<Rightarrow> fallback)"

definition fetchEndpoint :: "golib \<Rightarrow> world \<Rightarrow> string \<Rightarrow> (error + json) \<times> event list" where
  "fetchEndpoint L w url =
     (case http_Get w url of
        Inl err \<Rightarrow> (Inl (Wrap (''failed to fetch '' @ url) err), [EvGet url])
      | Inr resp \<Rightarrow>
          (case Body resp of
             Inl err \<Rightarrow> (Inl (Wrap (''failed to read response from '' @ url) err), [EvGet url])
           | Inr body \<Rightarrow>
               (case json_Unmarshal L body of
                  Inl err \<Rightarrow> (Inl (Wrap (''failed to parse JSON from '' @ url) err), [EvGet url])
                | Inr data \<Rightarrow> (Inr data, [EvGet url]))))"

definition parseToMap :: "json \<Rightarrow> gomap" where
  "parseToMap data = (case data of JObject resultMap \<Rightarrow> resultMap | _ \<Rightarrow> [(''data'', data)])"

definition endpoints :: "string list" where
  "endpoints = [''lscpu'', ''lspci'', ''lsusb'', ''lshw'', ''proc/cpuinfo'']"

definition endpointURL :: "string \<Rightarrow> string \<Rightarrow> string" where
  "endpointURL baseURL endpoint = ''http://'' @ baseURL @ '':'' @ defaultPort @ ''/hal/hwc/'' @ endpoint"

text \<open>The \<open>switch\<close> of \<open>collectHardwareData\<close>.\<close>

definition assignField :: "string \<Rightarrow> gomap \<Rightarrow> HardwareData \<Rightarrow> HardwareData" where
  "assignField endpoint m data =
     (if endpoint = ''lscpu'' then data\<lparr>Lscpu := Some m\<rparr>
      else if endpoint = ''lspci'' then data\<lparr>Lspci := Some m\<rparr>
      else if endpoint = ''lsusb'' then data\<lparr>Lsusb := Some m\<rparr>
      else if endpoint = ''lshw'' then data\<lparr>Lshw := Some m\<rparr>
      else if endpoint = ''proc/cpuinfo'' then data\<lparr>CpuInfo := Some m\<rparr>
      else data)"

text \<open>The \<open>for\<close> loop of \<open>collectHardwareData\<close> over the endpoints still to fetch.\<close>

fun collectLoop ::
  "golib \<Rightarrow> world \<Rightarrow> string \<Rightarrow> string list \<Rightarrow> HardwareData \<Rightarrow> (error + HardwareData) \<times> event list"
where
  "collectLoop L w baseURL [] data = (Inr data, [])"
| "collectLoop L w baseURL (endpoint # rest) data =
     (case fetchEndpoint L w (endpointURL baseURL endpoint) of
        (Inl err, ev) \<Rightarrow> (Inl err, ev)
      | (Inr result, ev) \<Rightarrow>
          (case collectLoop L w baseURL rest (assignField endpoint (parseToMap result) data) of
             (r, evs) \<Rightarrow> (r, ev @ evs)))"

definition collectHardwareData :: "golib \<Rightarrow> world \<Rightarrow> string \<Rightarrow> (error + HardwareData) \<times> event list" where
  "collectHardwareData L w baseURL =
     collectLoop L w baseURL endpoints
       \<lparr>Lscpu = None, Lspci = None, Lsusb = None, Lshw = None, CpuInfo = None\<rparr>"

text \<open>
  \<open>salt := make([]byte, 16)\<close> is sixteen zero bytes, which \<^verbatim>\<open>rand.Read\<close> overwrites with
  the bytes of the random source.
\<close>

definition generateSalt :: "world \<Rightarrow> (error + string) \<times> event list" where
  "generateSalt w =
     (case rand_Read w of
        Inl err \<Rightarrow> (Inl (Wrap ''failed to generate salt'' err), [EvRand])
      | Inr bs \<Rightarrow> (Inr (EncodeToString (take 16 (bs @ replicate 16 (CHR 0x00)))), [EvRand]))"

definition saveToFile :: "world \<Rightarrow> files \<Rightarrow> string \<Rightarrow> string \<Rightarrow> error option \<times> event list \<times> files" where
  "saveToFile w fs filename data =
     (case ioutil_WriteFile w fs filename data of (r, fs') \<Rightarrow> (r, [EvWrite filename data], fs'))"

definition loadFromFile :: "world \<Rightarrow> files \<Rightarrow> string \<Rightarrow> (error + string) \<times> event list" where
  "loadFromFile w fs filename =
     (case ioutil_ReadFile w fs filename of
        Inl err \<Rightarrow> (Inl err, [EvRead filename])
      | Inr data \<Rightarrow> (Inr (TrimSpace data), [EvRead filename]))"

definition digest :: "golib \<Rightarrow> string \<Rightarrow> string \<Rightarrow> string" where
  "digest L salt jsonData = Sprintf_x (sha256_Sum256 L (salt @ jsonData))"

definition calculateSaltedHash ::
  "golib \<Rightarrow> world \<Rightarrow> files \<Rightarrow> HardwareData \<Rightarrow> (error + string) \<times> event list \<times> files"
where
  "calculateSaltedHash L w fs data =
     (case json_Marshal L data of
        Inl err \<Rightarrow> (Inl (Wrap ''failed to serialize hardware data'' err), [], fs)
      | Inr jsonData \<Rightarrow>
          (case loadFromFile w fs saltFile of
             (Inr salt, ev) \<Rightarrow> (Inr (digest L salt jsonData), ev, fs)
           | (Inl _, ev) \<Rightarrow>
               (case generateSalt w of
                  (Inl err, ev') \<Rightarrow>
                    (Inl (Wrap ''failed to generate salt'' err),
                     ev @ [EvLog ''Salt not found, generating new one.''] @ ev', fs)
                | (Inr salt, ev') \<Rightarrow>
                    (case saveToFile w fs saltFile salt of
                       (Some err, ev'', fs') \<Rightarrow>
                         (Inl (Wrap ''failed to save salt to file'' err),
                          ev @ [EvLog ''Salt not found, generating new one.''] @ ev' @ ev'', fs')
                     | (None, ev'', fs') \<Rightarrow>
                         (Inr (digest L salt jsonData),
                          ev @ [EvLog ''Salt not found, generating new one.''] @ ev' @ ev'', fs')))))"

text \<open>
  \<open>calculateSaltedHash\<close> of the \<open>wasm-binary\<close> variant: the salt is the global
  variable \<open>salt\<close>, passed in and returned; nothing is read from or written to a file.
\<close>

definition calculateSaltedHash_wasm ::
  "golib \<Rightarrow> world \<Rightarrow> string \<Rightarrow> HardwareData \<Rightarrow> (error + string) \<times> event list \<times> string"
where
  "calculateSaltedHash_wasm L w salt data =
     (case json_Marshal L data of
        Inl err \<Rightarrow> (Inl (Wrap ''failed to serialize hardware data'' err), [], salt)
      | Inr jsonData \<Rightarrow>
          if salt = []
          then (case generateSalt w of
                  (Inl err, ev) \<Rightarrow> (Inl (Wrap ''failed to generate salt'' err), ev, [])
                | (Inr salt', ev) \<Rightarrow> (Inr (digest L salt' jsonData), ev, salt'))
          else (Inr (digest L salt jsonData), [], salt))"

definition loadAuthToken :: "world \<Rightarrow> files \<Rightarrow> (error + string) \<times> event list" where
  "loadAuthToken w fs =
     (case ioutil_ReadFile w fs ''local-api'' of
        Inl err \<Rightarrow> (Inl (Wrap ''failed to read local-api file'' err), [EvRead ''local-api''])
      | Inr token \<Rightarrow> (Inr (TrimSpace token), [EvRead ''local-api'']))"

definition deprovisionRequest :: "string \<Rightarrow> request" where
  "deprovisionRequest authToken =
     \<lparr>Method = ''DELETE'', URL = deprovisionURL, Header = [(''Authorization'', authToken)]\<rparr>"

definition deprovisionDevice :: "world \<Rightarrow> string \<Rightarrow> error option \<times> event list" where
  "deprovisionDevice w authToken =
     (case http_NewRequest ''DELETE'' deprovisionURL of
        Inl err \<Rightarrow> (Some (Wrap ''failed to create DELETE request'' err), [])
      | Inr req0 \<Rightarrow>
          (let req = req0\<lparr>Header := [(''Authorization'', authToken)]\<rparr>
           in case client_Do w req of
                Inl err \<Rightarrow> (Some (Wrap ''failed to send DELETE request'' err), [EvDo req])
              | Inr resp \<Rightarrow>
                  if StatusCode resp \<noteq> 200
                  then (Some (New (''unexpected response status: '' @ Itoa (int (StatusCode resp)))),
                        [EvDo req])
                  else (None, [EvDo req])))"

subsection \<open>The monitoring loop\<close>

text \<open>
  The state of the process between two cycles: the files and the variable
  \<open>initialHdID\<close>. How a cycle ended: at one of the five \<open>continue\<close> statements, at the
  \<open>break\<close> (\<open>Deprovisioned\<close>), or at the end of the loop body (\<open>Unchanged\<close>).
\<close>

record state =
  files :: files
  initialHdID :: string

datatype outcome =
    CollectFailed
  | HashFailed
  | BaselineSet
  | TokenFailed
  | DeprovisionFailed
  | Deprovisioned
  | Unchanged

text \<open>\<^verbatim>\<open>time.Duration(period) * time.Second\<close>, a 64-bit count of nanoseconds.\<close>

definition sleepDuration :: "int \<Rightarrow> 64 word" where
  "sleepDuration period = word_of_int period * 1000000000"

text \<open>One pass through the body of the \<open>for\<close> loop of \<open>main\<close>.\<close>

definition cycle :: "golib \<Rightarrow> string \<Rightarrow> int \<Rightarrow> world \<Rightarrow> state \<Rightarrow> outcome \<times> event list \<times> state" where
  "cycle L halURL period w s =
     (case collectHardwareData L w halURL of
        (Inl err, ev1) \<Rightarrow>
          (CollectFailed, ev1 @ [EvLog (''Error collecting hardware data: '' @ Error err)], s)
      | (Inr hardwareData, ev1) \<Rightarrow>
          (case calculateSaltedHash L w (files s) hardwareData of
             (Inl err, ev2, fs) \<Rightarrow>
               (HashFailed,
                ev1 @ ev2 @ [EvLog (''Error calculating hardware hash: '' @ Error err)],
                s\<lparr>files := fs\<rparr>)
           | (Inr hwID, ev2, fs) \<Rightarrow>
               (let ev3 = ev1 @ ev2 @ [EvLog (''Calculated hardware hash: '' @ hwID)]
                in if initialHdID s = []
                   then (case saveToFile w fs hwidFile hwID of
                           (Some err, ev4, fs') \<Rightarrow>
                             (BaselineSet,
                              ev3 @ ev4 @ [EvLog (''Error saving HWID to file: '' @ Error err),
                                           EvLog ''Initial hardware ID set.''],
                              \<lparr>files = fs', initialHdID = hwID\<rparr>)
                         | (None, ev4, fs') \<Rightarrow>
                             (BaselineSet,
                              ev3 @ ev4 @ [EvLog ''Initial hardware ID set.''],
                              \<lparr>files = fs', initialHdID = hwID\<rparr>))
                   else if hwID \<noteq> initialHdID s
                   then (case loadAuthToken w fs of
                           (Inl err, ev4) \<Rightarrow>
                             (TokenFailed,
                              ev3 @ ev4 @ [EvLog (''Error loading auth token: '' @ Error err)],
                              s\<lparr>files := fs\<rparr>)
                         | (Inr authToken, ev4) \<Rightarrow>
                             (case deprovisionDevice w authToken of
                                (Some err, ev5) \<Rightarrow>
                                  (DeprovisionFailed,
                                   ev3 @ ev4 @ ev5 @ [EvLog (''Error deprovisioning device: '' @ Error err)],
                                   s\<lparr>files := fs\<rparr>)
                              | (None, ev5) \<Rightarrow>
                                  (Deprovisioned,
                                   ev3 @ ev4 @ ev5 @ [EvLog ''Device deprovisioned due to hardware changes.''],
                                   s\<lparr>files := fs\<rparr>)))
                   else (Unchanged,
                         ev3 @ [EvLog ''Hardware configuration unchanged.'', EvSleep (sleepDuration period)],
                         s\<lparr>files := fs\<rparr>))))"

text \<open>
  The \<open>for\<close> loop of \<open>main\<close>, one world for each cycle. With the worlds of the first
  cycles it returns \<open>Exited\<close> when one of them reached the \<open>break\<close>, and \<open>Running\<close>
  when the loop is still running after the last of them.
\<close>

datatype status = Running | Exited

fun mainLoop ::
  "golib \<Rightarrow> string \<Rightarrow> int \<Rightarrow> world list \<Rightarrow> state \<Rightarrow> status \<times> event list \<times> state"
where
  "mainLoop L halURL period [] s = (Running, [], s)"
| "mainLoop L halURL period (w # ws) s =
     (case cycle L halURL period w s of
        (out, ev, s') \<Rightarrow>
          if out = Deprovisioned then (Exited, ev, s')
          else (case mainLoop L halURL period ws s' of (st, evs, s'') \<Rightarrow> (st, ev @ evs, s'')))"

text \<open>The statements of \<open>main\<close> before the loop: the configuration and the baseline.\<close>

definition mainInit ::
  "(string \<rightharpoonup> string) \<Rightarrow> world \<Rightarrow> files \<Rightarrow> string \<times> int \<times> event list \<times> state"
where
  "mainInit environ w fs =
     (let halURL = getEnv environ ''HAL_URL'' defaultHALURL;
          periodEnv = getEnv environ ''PERIOD'' (Itoa defaultPeriod);
          invalid = EvLog (''Invalid PERIOD value, using default: '' @ Itoa defaultPeriod @ '' seconds'');
          (period, ev1) =
             (case Atoi periodEnv of
                Inl err \<Rightarrow> (defaultPeriod, [invalid])
              | Inr p \<Rightarrow> if p \<le> 0 then (defaultPeriod, [invalid]) else (p, []))
      in case loadFromFile w fs hwidFile of
           (Inl err, ev2) \<Rightarrow>
             (halURL, period,
              ev1 @ ev2 @ [EvLog ''HWID not found, will calculate on first run.''],
              \<lparr>files = fs, initialHdID = []\<rparr>)
         | (Inr v, ev2) \<Rightarrow> (halURL, period, ev1 @ ev2, \<lparr>files = fs, initialHdID = v\<rparr>))"

definition main ::
  "golib \<Rightarrow> (string \<rightharpoonup> string) \<Rightarrow> files \<Rightarrow> world \<Rightarrow> world list \<Rightarrow> status \<times> event list \<times> state"
where
  "main L environ fs w0 ws =
     (case mainInit environ w0 fs of
        (halURL, period, ev0, s0) \<Rightarrow>
          (case mainLoop L halURL period ws s0 of (st, evs, s) \<Rightarrow> (st, ev0 @ evs, s)))"

subsection \<open>Observations on the events of a run\<close>

text \<open>
  The requests sent to the control plane, the durations slept, the data written to a
  file and the reads of a file, each in the order of the events.
\<close>

fun requests :: "event list \<Rightarrow> request list" where
  "requests [] = []"
| "requests (EvDo r # es) = r # requests es"
| "requests (e # es) = requests es"

fun sleeps :: "event list \<Rightarrow> 64 word list" where
  "sleeps [] = []"
| "sleeps (EvSleep d # es) = d # sleeps es"
| "sleeps (e # es) = sleeps es"

fun writesTo :: "string \<Rightarrow> event list \<Rightarrow> string list" where
  "writesTo name [] = []"
| "writesTo name (EvWrite f data # es) = (if f = name then data # writesTo name es else writesTo name es)"
| "writesTo name (e # es) = writesTo name es"

fun readsOf :: "string \<Rightarrow> event list \<Rightarrow> nat" where
  "readsOf name [] = 0"
| "readsOf name (EvRead f # es) = (if f = name then Suc (readsOf name es) else readsOf name es)"
| "readsOf name (e # es) = readsOf name es"

text \<open>A character of the ASCII range that is not white space.\<close>

definition plain :: "char \<Rightarrow> bool" where
  "plain c = ((of_char c :: nat) < 128 \<and> \<not> asciiSpace c)"

subsection \<open>Concrete libraries and worlds\<close>

text \<open>
  A library for concrete runs: the "hash" is the sum of the bytes of its input, the parser
  knows the empty object and the empty array, strings are quoted without escapes.
\<close>

definition toyLib :: golib where
  "toyLib =
     \<lparr>sha256_Sum256 = (\<lambda>s. word_of_nat (sum_list (map of_char s))),
      json_Unmarshal =
        (\<lambda>body. if body = ''{}'' then Inr (JObject [])
                else if body = ''[]'' then Inr (JArray [])
                else Inl (New ''unexpected end of JSON input'')),
      json_float = (\<lambda>f. ''0''),
      json_quote = (\<lambda>s. CHR 0x22 # s @ [CHR 0x22])\<rparr>"

text \<open>
  A world without faults: every endpoint answers \<open>{}\<close>, the control plane answers
  200, the random source returns sixteen zero bytes.
\<close>

definition quietWorld :: world where
  "quietWorld =
     \<lparr>http_Get = (\<lambda>url. Inr \<lparr>StatusCode = 200, Body = Inr ''{}''\<rparr>),
      client_Do = (\<lambda>req. Inr \<lparr>StatusCode = 200, Body = Inr []\<rparr>),
      read_fault = (\<lambda>name. None),
      write_fault = (\<lambda>name. None),
      write_left = (\<lambda>name. None),
      rand_Read = Inr (replicate 16 (CHR 0x00))\<rparr>"

text \<open>The HAL service now reports an array for \<open>lsusb\<close>: the hardware has changed.\<close>

definition changedWorld :: world where
  "changedWorld =
     quietWorld\<lparr>http_Get :=
       (\<lambda>url. Inr \<lparr>StatusCode = 200,
                     Body = Inr (if url = ''http://iofog:54331/hal/hwc/lsusb'' then ''[]'' else ''{}'')\<rparr>)\<rparr>"

text \<open>The HAL service does not answer for \<open>lspci\<close>.\<close>

definition lspciDownWorld :: world where
  "lspciDownWorld =
     quietWorld\<lparr>http_Get :=
       (\<lambda>url. if url = ''http://iofog:54331/hal/hwc/lspci''
              then Inl (New ''dial tcp: connection refused'')
              else Inr \<lparr>StatusCode = 200, Body = Inr ''{}''\<rparr>)\<rparr>"

text \<open>
  The disk has no room for the baseline record: the file cannot be created. In
  \<open>tornWriteWorld\<close> the file is created, and the write then fails and leaves it empty.
\<close>

definition fullDiskWorld :: world where
  "fullDiskWorld =
     quietWorld\<lparr>write_fault :=
       (\<lambda>name. if name = ''id/hw-id''
               then Some (New ''open id/hw-id: no space left on device'')
               else None)\<rparr>"

definition tornWriteWorld :: world where
  "tornWriteWorld =
     quietWorld\<lparr>write_fault :=
                  (\<lambda>name. if name = ''id/hw-id''
                          then Some (New ''write id/hw-id: no space left on device'')
                          else None),
                write_left := (\<lambda>name. if name = ''id/hw-id'' then Some [] else None)\<rparr>"

text \<open>
  Reading the salt record fails with an input/output error, and the random source
  returns sixteen bytes \<open>0xFF\<close>.
\<close>

definition saltFaultWorld :: world where
  "saltFaultWorld =
     quietWorld\<lparr>read_fault :=
                  (\<lambda>name. if name = ''id/salt-key''
                          then Some (New ''read id/salt-key: input/output error'')
                          else None),
                rand_Read := Inr (replicate 16 (CHR 0xFF))\<rparr>"

text \<open>
  What a first cycle in \<open>quietWorld\<close> leaves behind: the salt, the fingerprint of the
  quiet hardware under that salt, the identity store holding both, and the state
  of the process that monitors against this baseline. The snapshot of the quiet
  hardware and that of the changed hardware.
\<close>

definition quietSalt :: string where
  "quietSalt = ''AAAAAAAAAAAAAAAAAAAAAA==''"

definition quietID :: string where
  "quietID = ''0000000000000000000000000000000000000000000000000000000000001a23''"

definition changedID :: string where
  "changedID = ''0000000000000000000000000000000000000000000000000000000000001cf3''"

definition identityStore :: files where
  "identityStore = [''id/salt-key'' \<mapsto> quietSalt, ''id/hw-id'' \<mapsto> quietID]"

definition monitoring :: state where
  "monitoring = \<lparr>files = identityStore, initialHdID = quietID\<rparr>"

definition monitoringWithToken :: state where
  "monitoringWithToken =
     \<lparr>files = identityStore(''local-api'' \<mapsto> ''  token-123 ''), initialHdID = quietID\<rparr>"

definition quietData :: HardwareData where
  "quietData = \<lparr>Lscpu = Some [], Lspci = Some [], Lsusb = Some [], Lshw = Some [], CpuInfo = Some []\<rparr>"

definition changedData :: HardwareData where
  "changedData =
     \<lparr>Lscpu = Some [], Lspci = Some [], Lsusb = Some [(''data'', JArray [])], Lshw = Some [],
      CpuInfo = Some []\<rparr>"

definition halGets :: "event list" where
  "halGets =
     [EvGet ''http://iofog:54331/hal/hwc/lscpu'', EvGet ''http://iofog:54331/hal/hwc/lspci'',
      EvGet ''http://iofog:54331/hal/hwc/lsusb'', EvGet ''http://iofog:54331/hal/hwc/lshw'',
      EvGet ''http://iofog:54331/hal/hwc/proc/cpuinfo'']"

text \<open>A snapshot with two facts about the CPU, and the same snapshot with the facts swapped.\<close>

definition cpuData :: HardwareData where
  "cpuData = quietData\<lparr>Lscpu := Some [(''model'', JString ''x''), (''arch'', JString ''arm'')]\<rparr>"

definition cpuDataSwapped :: HardwareData where
  "cpuDataSwapped = quietData\<lparr>Lscpu := Some [(''arch'', JString ''arm''), (''model'', JString ''x'')]\<rparr>"

section \<open>Properties\<close>

subsection \<open>Events, digests, trimming and base64\<close>

lemma requests_append: "requests (a @ b) = requests a @ requests b"
  by (induction a rule: requests.induct) auto

lemma sleeps_append: "sleeps (a @ b) = sleeps a @ sleeps b"
  by (induction a rule: sleeps.induct) auto

lemma writesTo_append: "writesTo n (a @ b) = writesTo n a @ writesTo n b"
  by (induction n a rule: writesTo.induct) auto

lemma readsOf_append: "readsOf n (a @ b) = readsOf n a + readsOf n b"
  by (induction n a rule: readsOf.induct) auto

lemma observe_gets:
  "requests (map EvGet us) = []" "sleeps (map EvGet us) = []"
  "writesTo n (map EvGet us) = []" "readsOf n (map EvGet us) = 0"
  "EvLog m \<notin> set (map EvGet us)" "EvRand \<notin> set (map EvGet us)"
  by (induction us) auto

lemma length_hexBytes: "length (concat (map (\<lambda>i. hexByte (f i)) xs)) = 2 * length xs"
  by (induction xs) (simp_all add: hexByte_def)

lemma length_Sprintf_x: "length (Sprintf_x h) = 64"
  by (simp add: Sprintf_x_def length_hexBytes)

lemma set_Sprintf_x: "set (Sprintf_x h) \<subseteq> set ldigits"
proof -
  have "k < 16 \<Longrightarrow> ldigits ! k \<in> set ldigits" for k
    by (rule nth_mem) (simp add: ldigits_def)
  then have "set (hexByte n) \<subseteq> set ldigits" for n
    by (simp add: hexByte_def)
  then show ?thesis
    by (auto simp: Sprintf_x_def)
qed

lemma digest_not_empty: "digest L salt j \<noteq> []"
  using length_Sprintf_x [of "sha256_Sum256 L (salt @ j)"] by (auto simp: digest_def)

text \<open>
  A string that starts and ends with a plain character is left as it is by
  \<open>TrimSpace\<close>; the characters of a base64 encoding are plain, so that a salt read
  back from its record is the salt that was written.
\<close>

lemma trimHead_keep:
  assumes "s = [] \<or> (\<not> s1 (hd s) \<and> (\<forall>b. \<not> s2 (hd s) b) \<and> (\<forall>b c. \<not> s3 (hd s) b c))"
  shows "trimHead s1 s2 s3 s = s"
proof (cases s)
  case Nil then show ?thesis by simp
next
  case (Cons a r)
  note A = this
  show ?thesis
  proof (cases r)
    case Nil with A assms show ?thesis by simp
  next
    case (Cons b r')
    note B = this
    show ?thesis
    proof (cases r')
      case Nil with A B assms show ?thesis by simp
    next
      case (Cons c r'') with A B assms show ?thesis by simp
    qed
  qed
qed

lemma plain_not_space: "plain a \<Longrightarrow> \<not> asciiSpace a \<and> \<not> space2 a b \<and> \<not> space3 a b c \<and> \<not> space2 b a \<and> \<not> space3 c b a"
  by (auto simp: plain_def space2_def space3_def Let_def)

lemma TrimSpace_plain:
  assumes "s = [] \<or> (plain (hd s) \<and> plain (last s))"
  shows "TrimSpace s = s"
proof -
  have L: "TrimLeft s = s"
    unfolding TrimLeft_def using assms by (intro trimHead_keep) (auto simp: plain_not_space)
  have R: "TrimRight s = s"
  proof -
    have "trimHead asciiSpace (\<lambda>b a. space2 a b) (\<lambda>c b a. space3 a b c) (rev s) = rev s"
      using assms by (intro trimHead_keep) (auto simp: plain_not_space hd_rev)
    then show ?thesis by (simp add: TrimRight_def)
  qed
  show ?thesis by (simp add: TrimSpace_def L R)
qed

lemma plain_b64: "plain (b64 i)"
proof -
  have "\<forall>c \<in> set encodeStd. plain c"
    by (simp add: encodeStd_def plain_def asciiSpace_def)
  moreover have "encodeStd ! (i mod 64) \<in> set encodeStd"
    by (rule nth_mem) (simp add: encodeStd_def)
  ultimately show ?thesis by (simp add: b64_def)
qed

lemma plain_pad: "plain (CHR ''='')"
  by (simp add: plain_def asciiSpace_def)

lemma plain_EncodeToString: "c \<in> set (EncodeToString bs) \<Longrightarrow> plain c"
proof (induction bs rule: EncodeToString.induct)
  case (1 a b c r)
  then show ?case by (auto simp: Let_def plain_b64)
next
  case (2 a b)
  then show ?case by (auto simp: Let_def plain_b64 plain_pad)
next
  case (3 a)
  then show ?case by (auto simp: Let_def plain_b64 plain_pad)
next
  case 4
  then show ?case by simp
qed

lemma TrimSpace_EncodeToString: "TrimSpace (EncodeToString bs) = EncodeToString bs"
proof (cases "EncodeToString bs = []")
  case True
  then show ?thesis by (simp add: TrimSpace_plain)
next
  case False
  then have "hd (EncodeToString bs) \<in> set (EncodeToString bs)" "last (EncodeToString bs) \<in> set (EncodeToString bs)"
    by simp_all
  then show ?thesis by (intro TrimSpace_plain) (auto dest: plain_EncodeToString)
qed

lemma EncodeToString_not_empty: "bs \<noteq> [] \<Longrightarrow> EncodeToString bs \<noteq> []"
  by (induction bs rule: EncodeToString.induct) (simp_all add: Let_def)

subsection \<open>Sorting the entries of a map by key\<close>

lemma filter_key_distinct:
  "distinct (map f xs) \<Longrightarrow> k \<in> set xs \<Longrightarrow> filter (\<lambda>x. f k = f x) xs = [k]"
proof (induction xs)
  case Nil
  then show ?case by simp
next
  case (Cons a xs)
  show ?case
  proof (cases "k = a")
    case True
    have "filter (\<lambda>x. f a = f x) xs = []"
      using Cons.prems(1) by (auto simp: filter_empty_conv)
    with True show ?thesis by simp
  next
    case False
    with Cons.prems have "k \<in> set xs" by auto
    moreover from this Cons.prems(1) have "f k \<noteq> f a" by (auto simp: image_iff)
    ultimately show ?thesis using Cons by simp
  qed
qed

lemma distinct_keys_mset:
  assumes "mset xs = mset ys" "distinct (map f xs)"
  shows "distinct (map f ys)"
  using assms by (metis mset_map mset_eq_imp_distinct_iff)

lemma sort_key_perm:
  assumes "mset xs = mset ys" "distinct (map f xs)"
  shows "sort_key f xs = sort_key f ys"
proof (rule properties_for_sort_key)
  show "mset (sort_key f ys) = mset xs" using assms(1) by simp
  show "sorted (map f (sort_key f ys))" by simp
  fix k assume k: "k \<in> set (sort_key f ys)"
  have dy: "distinct (map f ys)"
    using assms by (rule distinct_keys_mset)
  have ds: "distinct (map f (sort_key f ys))"
    using distinct_keys_mset [of ys "sort_key f ys" f] dy by simp
  have kx: "k \<in> set xs" using k assms(1) by (metis mset_eq_setD set_sort)
  show "filter (\<lambda>x. f k = f x) (sort_key f ys) = filter (\<lambda>x. f k = f x) xs"
    using filter_key_distinct [OF ds k] filter_key_distinct [OF assms(2) kx] by simp
qed

lemma encodeMap_same: "sameMap a b \<Longrightarrow> encodeMap L a = encodeMap L b"
  by (auto simp: sameMap_def encodeMap_def dest: sort_key_perm [where f = fst]
      split: option.splits)

lemma json_Marshal_same:
  assumes "sameData d d'"
  shows "json_Marshal L d = json_Marshal L d'"
proof -
  from assms have
    "encodeMap L (Lscpu d) = encodeMap L (Lscpu d')"
    "encodeMap L (Lspci d) = encodeMap L (Lspci d')"
    "encodeMap L (Lsusb d) = encodeMap L (Lsusb d')"
    "encodeMap L (Lshw d) = encodeMap L (Lshw d')"
    "encodeMap L (CpuInfo d) = encodeMap L (CpuInfo d')"
    by (simp_all add: sameData_def encodeMap_same)
  then show ?thesis by (simp add: json_Marshal_def)
qed

lemma json_Marshal_Inr: "\<exists>j. json_Marshal L d = Inr j"
  by (simp add: json_Marshal_def)

subsection \<open>Collection\<close>

lemma collect_unfold:
  "collectHardwareData L w b =
    (case fetchEndpoint L w (endpointURL b ''lscpu'') of
       (Inl err, ev) \<Rightarrow> (Inl err, ev)
     | (Inr r1, e1) \<Rightarrow>
    (case fetchEndpoint L w (endpointURL b ''lspci'') of
       (Inl err, ev) \<Rightarrow> (Inl err, e1 @ ev)
     | (Inr r2, e2) \<Rightarrow>
    (case fetchEndpoint L w (endpointURL b ''lsusb'') of
       (Inl err, ev) \<Rightarrow> (Inl err, e1 @ e2 @ ev)
     | (Inr r3, e3) \<Rightarrow>
    (case fetchEndpoint L w (endpointURL b ''lshw'') of
       (Inl err, ev) \<Rightarrow> (Inl err, e1 @ e2 @ e3 @ ev)
     | (Inr r4, e4) \<Rightarrow>
    (case fetchEndpoint L w (endpointURL b ''proc/cpuinfo'') of
       (Inl err, ev) \<Rightarrow> (Inl err, e1 @ e2 @ e3 @ e4 @ ev)
     | (Inr r5, e5) \<Rightarrow>
         (Inr \<lparr>Lscpu = Some (parseToMap r1), Lspci = Some (parseToMap r2),
               Lsusb = Some (parseToMap r3), Lshw = Some (parseToMap r4),
               CpuInfo = Some (parseToMap r5)\<rparr>, e1 @ e2 @ e3 @ e4 @ e5))))))"
  by (simp add: collectHardwareData_def endpoints_def assignField_def split: prod.splits sum.splits)

lemma fetchEndpoint_events: "snd (fetchEndpoint L w url) = [EvGet url]"
  by (simp add: fetchEndpoint_def split: sum.splits)

lemma fetchEndpoint_Inl:
  "fst (fetchEndpoint L w url) = Inl err \<Longrightarrow>
   (\<exists>cause. http_Get w url = Inl cause \<and> err = Wrap (''failed to fetch '' @ url) cause)
   \<or> (\<exists>resp cause. http_Get w url = Inr resp \<and> Body resp = Inl cause
         \<and> err = Wrap (''failed to read response from '' @ url) cause)
   \<or> (\<exists>resp body cause. http_Get w url = Inr resp \<and> Body resp = Inr body
         \<and> json_Unmarshal L body = Inl cause \<and> err = Wrap (''failed to parse JSON from '' @ url) cause)"
  by (auto simp: fetchEndpoint_def split: sum.splits)

text \<open>
  The error of a failed collection is the error of the first endpoint that fails.
\<close>

lemma collectLoop_first_failure:
  assumes "e \<in> set es" "fst (fetchEndpoint L w (endpointURL b e)) = Inl err0"
  shows "\<exists>pre e' post err. es = pre @ e' # post
           \<and> (\<forall>x \<in> set pre. \<exists>r. fst (fetchEndpoint L w (endpointURL b x)) = Inr r)
           \<and> fst (fetchEndpoint L w (endpointURL b e')) = Inl err
           \<and> collectLoop L w b es d = (Inl err, map (\<lambda>x. EvGet (endpointURL b x)) (pre @ [e']))"
  using assms
proof (induction es arbitrary: d)
  case Nil
  then show ?case by simp
next
  case (Cons x xs)
  obtain res ev where F: "fetchEndpoint L w (endpointURL b x) = (res, ev)"
    by (cases "fetchEndpoint L w (endpointURL b x)")
  have ev: "ev = [EvGet (endpointURL b x)]"
    using fetchEndpoint_events [of L w "endpointURL b x"] F by simp
  show ?case
  proof (cases res)
    case (Inl err)
    have "x # xs = [] @ x # xs \<and> (\<forall>y \<in> set []. \<exists>r. fst (fetchEndpoint L w (endpointURL b y)) = Inr r)
           \<and> fst (fetchEndpoint L w (endpointURL b x)) = Inl err
           \<and> collectLoop L w b (x # xs) d = (Inl err, map (\<lambda>x. EvGet (endpointURL b x)) ([] @ [x]))"
      using F Inl ev by simp
    then show ?thesis by blast
  next
    case (Inr r)
    with Cons.prems F have "e \<in> set xs" by auto
    from Cons.IH [OF this Cons.prems(2), of "assignField x (parseToMap r) d"]
    obtain pre e' post err where
      P: "xs = pre @ e' # post"
         "\<forall>y \<in> set pre. \<exists>r. fst (fetchEndpoint L w (endpointURL b y)) = Inr r"
         "fst (fetchEndpoint L w (endpointURL b e')) = Inl err"
         "collectLoop L w b xs (assignField x (parseToMap r) d)
            = (Inl err, map (\<lambda>x. EvGet (endpointURL b x)) (pre @ [e']))"
      by blast
    have "x # xs = (x # pre) @ e' # post
           \<and> (\<forall>y \<in> set (x # pre). \<exists>r. fst (fetchEndpoint L w (endpointURL b y)) = Inr r)
           \<and> fst (fetchEndpoint L w (endpointURL b e')) = Inl err
           \<and> collectLoop L w b (x # xs) d = (Inl err, map (\<lambda>x. EvGet (endpointURL b x)) ((x # pre) @ [e']))"
      using P F Inr ev by simp
    then show ?thesis by blast
  qed
qed

lemma collectLoop_gets: "\<exists>us. snd (collectLoop L w b es d) = map EvGet us"
proof (induction es arbitrary: d)
  case Nil
  show ?case by simp
next
  case (Cons x xs)
  obtain res ev where F: "fetchEndpoint L w (endpointURL b x) = (res, ev)"
    by (cases "fetchEndpoint L w (endpointURL b x)")
  have ev: "ev = map EvGet [endpointURL b x]"
    using fetchEndpoint_events [of L w "endpointURL b x"] F by simp
  show ?case
  proof (cases res)
    case (Inl err)
    with F ev show ?thesis by (simp del: list.map) blast
  next
    case (Inr r)
    from Cons.IH [of "assignField x (parseToMap r) d"] obtain us where
      "snd (collectLoop L w b xs (assignField x (parseToMap r) d)) = map EvGet us" by blast
    then have "snd (collectLoop L w b (x # xs) d) = map EvGet (endpointURL b x # us)"
      using F Inr ev
      by (cases "collectLoop L w b xs (assignField x (parseToMap r) d)") simp
    then show ?thesis by blast
  qed
qed

lemma collect_gets: "collectHardwareData L w b = (r, ev) \<Longrightarrow> \<exists>us. ev = map EvGet us"
  using collectLoop_gets [of L w b endpoints
      "\<lparr>Lscpu = None, Lspci = None, Lsusb = None, Lshw = None, CpuInfo = None\<rparr>"]
  by (simp add: collectHardwareData_def)

subsection \<open>Files, salt and fingerprint\<close>

lemma loadFromFile_Inr:
  "fst (loadFromFile w fs name) = Inr v \<longleftrightarrow>
     read_fault w name = None \<and> (\<exists>data. fs name = Some data \<and> v = TrimSpace data)"
  by (auto simp: loadFromFile_def ioutil_ReadFile_def split: option.splits)

lemma loadFromFile_events: "snd (loadFromFile w fs name) = [EvRead name]"
  by (simp add: loadFromFile_def split: sum.splits)

lemma ReadFile_frame: "fs' name = fs name \<Longrightarrow> ioutil_ReadFile w fs' name = ioutil_ReadFile w fs name"
  by (auto simp: ioutil_ReadFile_def split: option.splits)

lemma generateSalt_trimmed: "fst (generateSalt w) = Inr salt \<Longrightarrow> TrimSpace salt = salt"
  by (auto simp: generateSalt_def TrimSpace_EncodeToString split: sum.splits)

lemma generateSalt_not_empty: "fst (generateSalt w) = Inr salt \<Longrightarrow> salt \<noteq> []"
  by (auto simp: generateSalt_def EncodeToString_not_empty split: sum.splits)

lemma calculateSaltedHash_loaded:
  assumes "read_fault w saltFile = None" "fs saltFile = Some data"
  shows "calculateSaltedHash L w fs d =
           (case json_Marshal L d of
              Inl err \<Rightarrow> (Inl (Wrap ''failed to serialize hardware data'' err), [], fs)
            | Inr jsonData \<Rightarrow> (Inr (digest L (TrimSpace data) jsonData), [EvRead saltFile], fs))"
  using assms
  by (simp add: calculateSaltedHash_def loadFromFile_def ioutil_ReadFile_def split: sum.splits)

lemma calculateSaltedHash_generated:
  assumes "fst (loadFromFile w fs saltFile) = Inl err"
      and "fst (generateSalt w) = Inr salt"
      and "write_fault w saltFile = None"
  shows "calculateSaltedHash L w fs d =
           (case json_Marshal L d of
              Inl e \<Rightarrow> (Inl (Wrap ''failed to serialize hardware data'' e), [], fs)
            | Inr jsonData \<Rightarrow>
                (Inr (digest L salt jsonData),
                 [EvRead saltFile, EvLog ''Salt not found, generating new one.'', EvRand,
                  EvWrite saltFile salt],
                 fs(saltFile \<mapsto> salt)))"
  using assms
  by (auto simp: calculateSaltedHash_def loadFromFile_def generateSalt_def saveToFile_def
        ioutil_WriteFile_def
      split: sum.splits prod.splits option.splits)

lemma calculateSaltedHash_Inr:
  assumes "calculateSaltedHash L w fs d = (Inr h, ev, fs')"
  shows "\<exists>salt jsonData. json_Marshal L d = Inr jsonData \<and> h = digest L salt jsonData
           \<and> (fst (loadFromFile w fs saltFile) = Inr salt \<and> fs' = fs \<and> ev = [EvRead saltFile]
              \<or> (\<exists>err. fst (loadFromFile w fs saltFile) = Inl err)
                \<and> fst (generateSalt w) = Inr salt \<and> write_fault w saltFile = None
                \<and> fs' = fs(saltFile \<mapsto> salt)
                \<and> ev = [EvRead saltFile, EvLog ''Salt not found, generating new one.'', EvRand,
                         EvWrite saltFile salt])"
  using assms
  by (auto simp: calculateSaltedHash_def loadFromFile_def generateSalt_def saveToFile_def
        ioutil_WriteFile_def
      split: sum.splits prod.splits option.splits)

lemma calculateSaltedHash_marshal:
  "json_Marshal L d = json_Marshal L d' \<Longrightarrow>
     calculateSaltedHash L w fs d = calculateSaltedHash L w fs d'"
  by (simp add: calculateSaltedHash_def)

lemma hash_observe:
  assumes "calculateSaltedHash L w fs d = (r, ev, fs')"
  shows "requests ev = []" "sleeps ev = []" "readsOf ''local-api'' ev = 0"
        "writesTo hwidFile ev = []" "fs' ''local-api'' = fs ''local-api''"
        "fs' hwidFile = fs hwidFile"
        "EvLog ''Device deprovisioned due to hardware changes.'' \<notin> set ev"
        "EvLog ''Hardware configuration unchanged.'' \<notin> set ev"
  using assms
  by (auto simp: calculateSaltedHash_def loadFromFile_def generateSalt_def saveToFile_def
        ioutil_WriteFile_def ioutil_ReadFile_def saltFile_def hwidFile_def json_Marshal_def
      split: sum.splits prod.splits option.splits)

lemma hash_no_exit_log:
  assumes "calculateSaltedHash L w fs d = (r, ev, fs')"
  shows "EvLog ''Device deprovisioned due to hardware changes.'' \<notin> set ev"
  using hash_observe(7) [OF assms] .

subsection \<open>The loop body\<close>

lemma deprovisionDevice_eq:
  "deprovisionDevice w t =
     ((case client_Do w (deprovisionRequest t) of
         Inl err \<Rightarrow> Some (Wrap ''failed to send DELETE request'' err)
       | Inr resp \<Rightarrow>
           if StatusCode resp \<noteq> 200
           then Some (New (''unexpected response status: '' @ Itoa (int (StatusCode resp))))
           else None),
      [EvDo (deprovisionRequest t)])"
  by (simp add: deprovisionDevice_def http_NewRequest_def deprovisionRequest_def Let_def
      split: sum.splits)

lemma deprovisionDevice_None:
  "fst (deprovisionDevice w t) = None \<longleftrightarrow>
     (\<exists>resp. client_Do w (deprovisionRequest t) = Inr resp \<and> StatusCode resp = 200)"
  by (auto simp: deprovisionDevice_eq split: sum.splits)

lemma loadAuthToken_eq:
  "loadAuthToken w fs =
     ((case ioutil_ReadFile w fs ''local-api'' of
         Inl err \<Rightarrow> Inl (Wrap ''failed to read local-api file'' err)
       | Inr token \<Rightarrow> Inr (TrimSpace token)),
      [EvRead ''local-api''])"
  by (simp add: loadAuthToken_def split: sum.splits)

lemma cycle_hashed:
  assumes "collectHardwareData L w halURL = (Inr d, ev1)"
      and "calculateSaltedHash L w (files s) d = (Inr hwID, ev2, fs)"
  shows "cycle L halURL period w s =
     (let ev3 = ev1 @ ev2 @ [EvLog (''Calculated hardware hash: '' @ hwID)]
      in if initialHdID s = []
         then (BaselineSet,
               ev3 @ [EvWrite hwidFile hwID]
                 @ (case write_fault w hwidFile of
                      Some err \<Rightarrow> [EvLog (''Error saving HWID to file: '' @ Error err)]
                    | None \<Rightarrow> [])
                 @ [EvLog ''Initial hardware ID set.''],
               \<lparr>files = snd (ioutil_WriteFile w fs hwidFile hwID), initialHdID = hwID\<rparr>)
         else if hwID \<noteq> initialHdID s
         then (case ioutil_ReadFile w (files s) ''local-api'' of
                 Inl err \<Rightarrow>
                   (TokenFailed,
                    ev3 @ [EvRead ''local-api'',
                           EvLog (''Error loading auth token: ''
                                  @ Error (Wrap ''failed to read local-api file'' err))],
                    s\<lparr>files := fs\<rparr>)
               | Inr token \<Rightarrow>
                   (case fst (deprovisionDevice w (TrimSpace token)) of
                      Some err \<Rightarrow>
                        (DeprovisionFailed,
                         ev3 @ [EvRead ''local-api'', EvDo (deprovisionRequest (TrimSpace token)),
                                EvLog (''Error deprovisioning device: '' @ Error err)],
                         s\<lparr>files := fs\<rparr>)
                    | None \<Rightarrow>
                        (Deprovisioned,
                         ev3 @ [EvRead ''local-api'', EvDo (deprovisionRequest (TrimSpace token)),
                                EvLog ''Device deprovisioned due to hardware changes.''],
                         s\<lparr>files := fs\<rparr>)))
         else (Unchanged,
               ev3 @ [EvLog ''Hardware configuration unchanged.'', EvSleep (sleepDuration period)],
               s\<lparr>files := fs\<rparr>))"
proof -
  have R: "ioutil_ReadFile w fs ''local-api'' = ioutil_ReadFile w (files s) ''local-api''"
    using hash_observe(5) [OF assms(2)] by (rule ReadFile_frame)
  show ?thesis
    using assms R
    by (simp add: cycle_def Let_def saveToFile_def ioutil_WriteFile_def loadAuthToken_eq
          deprovisionDevice_eq
        split: option.splits sum.splits)
qed

lemma cycle_collect_failed:
  assumes "collectHardwareData L w halURL = (Inl err, ev1)"
  shows "cycle L halURL period w s =
           (CollectFailed, ev1 @ [EvLog (''Error collecting hardware data: '' @ Error err)], s)"
  using assms by (simp add: cycle_def)

lemma cycle_hash_failed:
  assumes "collectHardwareData L w halURL = (Inr d, ev1)"
      and "calculateSaltedHash L w (files s) d = (Inl err, ev2, fs)"
  shows "cycle L halURL period w s =
           (HashFailed, ev1 @ ev2 @ [EvLog (''Error calculating hardware hash: '' @ Error err)],
            s\<lparr>files := fs\<rparr>)"
  using assms by (simp add: cycle_def)

text \<open>
  The seven ways through the loop body.
\<close>

lemma cycle_cases:
  assumes "cycle L halURL period w s = (out, ev, s')"
  obtains
    (collect_failed) err ev1 where
      "collectHardwareData L w halURL = (Inl err, ev1)" "out = CollectFailed"
      "ev = ev1 @ [EvLog (''Error collecting hardware data: '' @ Error err)]" "s' = s"
  | (hash_failed) d ev1 err ev2 fs where
      "collectHardwareData L w halURL = (Inr d, ev1)"
      "calculateSaltedHash L w (files s) d = (Inl err, ev2, fs)" "out = HashFailed"
      "ev = ev1 @ ev2 @ [EvLog (''Error calculating hardware hash: '' @ Error err)]"
      "s' = s\<lparr>files := fs\<rparr>"
  | (baseline) d ev1 hwID ev2 fs where
      "collectHardwareData L w halURL = (Inr d, ev1)"
      "calculateSaltedHash L w (files s) d = (Inr hwID, ev2, fs)"
      "initialHdID s = []" "out = BaselineSet"
      "ev = ev1 @ ev2 @ [EvLog (''Calculated hardware hash: '' @ hwID), EvWrite hwidFile hwID]
              @ (case write_fault w hwidFile of
                   Some err \<Rightarrow> [EvLog (''Error saving HWID to file: '' @ Error err)]
                 | None \<Rightarrow> [])
              @ [EvLog ''Initial hardware ID set.'']"
      "s' = \<lparr>files = snd (ioutil_WriteFile w fs hwidFile hwID), initialHdID = hwID\<rparr>"
  | (token_failed) d ev1 hwID ev2 fs err where
      "collectHardwareData L w halURL = (Inr d, ev1)"
      "calculateSaltedHash L w (files s) d = (Inr hwID, ev2, fs)"
      "initialHdID s \<noteq> []" "hwID \<noteq> initialHdID s"
      "ioutil_ReadFile w (files s) ''local-api'' = Inl err" "out = TokenFailed"
      "ev = ev1 @ ev2 @ [EvLog (''Calculated hardware hash: '' @ hwID), EvRead ''local-api'',
                EvLog (''Error loading auth token: ''
                       @ Error (Wrap ''failed to read local-api file'' err))]"
      "s' = s\<lparr>files := fs\<rparr>"
  | (deprovision_failed) d ev1 hwID ev2 fs token err where
      "collectHardwareData L w halURL = (Inr d, ev1)"
      "calculateSaltedHash L w (files s) d = (Inr hwID, ev2, fs)"
      "initialHdID s \<noteq> []" "hwID \<noteq> initialHdID s"
      "ioutil_ReadFile w (files s) ''local-api'' = Inr token"
      "fst (deprovisionDevice w (TrimSpace token)) = Some err" "out = DeprovisionFailed"
      "ev = ev1 @ ev2 @ [EvLog (''Calculated hardware hash: '' @ hwID), EvRead ''local-api'',
                EvDo (deprovisionRequest (TrimSpace token)),
                EvLog (''Error deprovisioning device: '' @ Error err)]"
      "s' = s\<lparr>files := fs\<rparr>"
  | (deprovisioned) d ev1 hwID ev2 fs token where
      "collectHardwareData L w halURL = (Inr d, ev1)"
      "calculateSaltedHash L w (files s) d = (Inr hwID, ev2, fs)"
      "initialHdID s \<noteq> []" "hwID \<noteq> initialHdID s"
      "ioutil_ReadFile w (files s) ''local-api'' = Inr token"
      "fst (deprovisionDevice w (TrimSpace token)) = None" "out = Deprovisioned"
      "ev = ev1 @ ev2 @ [EvLog (''Calculated hardware hash: '' @ hwID), EvRead ''local-api'',
                EvDo (deprovisionRequest (TrimSpace token)),
                EvLog ''Device deprovisioned due to hardware changes.'']"
      "s' = s\<lparr>files := fs\<rparr>"
  | (unchanged) d ev1 hwID ev2 fs where
      "collectHardwareData L w halURL = (Inr d, ev1)"
      "calculateSaltedHash L w (files s) d = (Inr hwID, ev2, fs)"
      "initialHdID s \<noteq> []" "hwID = initialHdID s" "out = Unchanged"
      "ev = ev1 @ ev2 @ [EvLog (''Calculated hardware hash: '' @ hwID),
                EvLog ''Hardware configuration unchanged.'', EvSleep (sleepDuration period)]"
      "s' = s\<lparr>files := fs\<rparr>"
proof -
  obtain r1 ev1 where C: "collectHardwareData L w halURL = (r1, ev1)"
    by (cases "collectHardwareData L w halURL")
  show thesis
  proof (cases r1)
    case (Inl err)
    with C assms cycle_collect_failed [of L w halURL err ev1 period s] show thesis
      by (intro collect_failed [of err ev1]) auto
  next
    case (Inr d)
    note D = this
    obtain r2 ev2 fs where H: "calculateSaltedHash L w (files s) d = (r2, ev2, fs)"
      by (cases "calculateSaltedHash L w (files s) d")
    show thesis
    proof (cases r2)
      case (Inl err)
      with C D H assms cycle_hash_failed [of L w halURL d ev1 s err ev2 fs period] show thesis
        by (intro hash_failed [of d ev1 err ev2 fs]) auto
    next
      case (Inr hwID)
      note E = cycle_hashed [of L w halURL d ev1 s hwID ev2 fs period]
      have CH: "collectHardwareData L w halURL = (Inr d, ev1)"
               "calculateSaltedHash L w (files s) d = (Inr hwID, ev2, fs)"
        using C D H Inr by simp_all
      note E' = E [OF CH]
      show thesis
      proof (cases "initialHdID s = []")
        case True
        with E' assms CH show thesis
          by (intro baseline [of d ev1 hwID ev2 fs]) (auto simp: Let_def)
      next
        case False
        note NE = this
        show thesis
        proof (cases "hwID = initialHdID s")
          case True
          with E' NE assms CH show thesis
            by (intro unchanged [of d ev1 hwID ev2 fs]) (auto simp: Let_def)
        next
          case False
          note DIFF = this
          show thesis
          proof (cases "ioutil_ReadFile w (files s) ''local-api''")
            case (Inl err)
            with E' NE DIFF assms CH show thesis
              by (intro token_failed [of d ev1 hwID ev2 fs err]) (auto simp: Let_def)
          next
            case (Inr token)
            note T = this
            show thesis
            proof (cases "fst (deprovisionDevice w (TrimSpace token))")
              case None
              with E' NE DIFF T assms CH show thesis
                by (intro deprovisioned [of d ev1 hwID ev2 fs token]) (auto simp: Let_def)
            next
              case (Some err)
              with E' NE DIFF T assms CH show thesis
                by (intro deprovision_failed [of d ev1 hwID ev2 fs token err]) (auto simp: Let_def)
            qed
          qed
        qed
      qed
    qed
  qed
qed

lemma cycle_baseline_kept:
  assumes "cycle L halURL period w s = (out, ev, s')" "initialHdID s \<noteq> []"
  shows "initialHdID s' = initialHdID s \<and> writesTo hwidFile ev = []
         \<and> files s' hwidFile = files s hwidFile"
proof -
  have G: "writesTo hwidFile ev1 = []" if "collectHardwareData L w halURL = (r, ev1)" for r ev1
    using collect_gets [OF that] observe_gets by auto
  note A = writesTo_append
  from assms(1) show ?thesis
  proof (cases rule: cycle_cases)
    case (collect_failed err ev1)
    with G [OF collect_failed(1)] show ?thesis by (simp add: A)
  next
    case (hash_failed d ev1 err ev2 fs)
    with G [OF hash_failed(1)] hash_observe [OF hash_failed(2)] show ?thesis by (simp add: A)
  next
    case (baseline d ev1 hwID ev2 fs)
    with assms(2) show ?thesis by simp
  next
    case (token_failed d ev1 hwID ev2 fs err)
    with G [OF token_failed(1)] hash_observe [OF token_failed(2)] show ?thesis by (simp add: A)
  next
    case (deprovision_failed d ev1 hwID ev2 fs token err)
    with G [OF deprovision_failed(1)] hash_observe [OF deprovision_failed(2)] show ?thesis
      by (simp add: A)
  next
    case (deprovisioned d ev1 hwID ev2 fs token)
    with G [OF deprovisioned(1)] hash_observe [OF deprovisioned(2)] show ?thesis by (simp add: A)
  next
    case (unchanged d ev1 hwID ev2 fs)
    with G [OF unchanged(1)] hash_observe [OF unchanged(2)] show ?thesis by (simp add: A)
  qed
qed

lemma mainLoop_baseline_kept:
  assumes "mainLoop L halURL period ws s = (st, ev, s')" "initialHdID s \<noteq> []"
  shows "initialHdID s' = initialHdID s \<and> writesTo hwidFile ev = []
         \<and> files s' hwidFile = files s hwidFile"
  using assms
proof (induction ws arbitrary: s st ev s')
  case Nil
  then show ?case by simp
next
  case (Cons w ws)
  obtain out e1 s1 where C: "cycle L halURL period w s = (out, e1, s1)"
    by (cases "cycle L halURL period w s")
  note K = cycle_baseline_kept [OF C Cons.prems(2)]
  show ?case
  proof (cases "out = Deprovisioned")
    case True
    with Cons.prems C K show ?thesis by simp
  next
    case False
    obtain st2 e2 s2 where M: "mainLoop L halURL period ws s1 = (st2, e2, s2)"
      by (cases "mainLoop L halURL period ws s1")
    have "initialHdID s1 \<noteq> []" using K Cons.prems(2) by simp
    from Cons.IH [OF M this] K Cons.prems(1) C M False show ?thesis
      by (auto simp: writesTo_append)
  qed
qed

lemma cycle_exit:
  assumes "cycle L halURL period w s = (out, ev, s')"
  shows "(out = Deprovisioned \<longrightarrow>
            (\<exists>pre token resp.
               ev = pre @ [EvDo (deprovisionRequest token),
                           EvLog ''Device deprovisioned due to hardware changes.'']
             \<and> client_Do w (deprovisionRequest token) = Inr resp \<and> StatusCode resp = 200))
       \<and> (out \<noteq> Deprovisioned \<longrightarrow>
            EvLog ''Device deprovisioned due to hardware changes.'' \<notin> set ev)"
proof -
  have G: "EvLog ''Device deprovisioned due to hardware changes.'' \<notin> set ev1"
    if "collectHardwareData L w halURL = (r, ev1)" for r ev1
    using collect_gets [OF that] observe_gets by auto
  from assms show ?thesis
  proof (cases rule: cycle_cases)
    case (collect_failed err ev1)
    with G [OF collect_failed(1)] show ?thesis by simp
  next
    case (hash_failed d ev1 err ev2 fs)
    with G [OF hash_failed(1)] hash_no_exit_log [OF hash_failed(2)] show ?thesis by simp
  next
    case (baseline d ev1 hwID ev2 fs)
    with G [OF baseline(1)] hash_no_exit_log [OF baseline(2)] show ?thesis
      by (simp split: option.splits)
  next
    case (token_failed d ev1 hwID ev2 fs err)
    with G [OF token_failed(1)] hash_no_exit_log [OF token_failed(2)] show ?thesis by simp
  next
    case (deprovision_failed d ev1 hwID ev2 fs token err)
    with G [OF deprovision_failed(1)] hash_no_exit_log [OF deprovision_failed(2)] show ?thesis
      by simp
  next
    case (deprovisioned d ev1 hwID ev2 fs token)
    from deprovisioned(6) obtain resp where
      R: "client_Do w (deprovisionRequest (TrimSpace token)) = Inr resp" "StatusCode resp = 200"
      by (auto simp: deprovisionDevice_None)
    have "ev = (ev1 @ ev2 @ [EvLog (''Calculated hardware hash: '' @ hwID), EvRead ''local-api''])
                 @ [EvDo (deprovisionRequest (TrimSpace token)),
                    EvLog ''Device deprovisioned due to hardware changes.'']"
      using deprovisioned(8) by simp
    with R deprovisioned(7) show ?thesis by blast
  next
    case (unchanged d ev1 hwID ev2 fs)
    with G [OF unchanged(1)] hash_no_exit_log [OF unchanged(2)] show ?thesis by simp
  qed
qed

lemma mainLoop_exit:
  assumes "mainLoop L halURL period ws s = (st, ev, s')"
  shows "(st = Exited \<longrightarrow>
            (\<exists>ws1 w ws2 pre token resp.
               ws = ws1 @ w # ws2
             \<and> ev = pre @ [EvDo (deprovisionRequest token),
                           EvLog ''Device deprovisioned due to hardware changes.'']
             \<and> client_Do w (deprovisionRequest token) = Inr resp \<and> StatusCode resp = 200))
       \<and> (st = Running \<longrightarrow>
            EvLog ''Device deprovisioned due to hardware changes.'' \<notin> set ev)"
  using assms
proof (induction ws arbitrary: s st ev s')
  case Nil
  then show ?case by simp
next
  case (Cons w ws)
  obtain out e1 s1 where C: "cycle L halURL period w s = (out, e1, s1)"
    by (cases "cycle L halURL period w s")
  note X = cycle_exit [OF C]
  show ?case
  proof (cases "out = Deprovisioned")
    case True
    with X obtain pre token resp where
      P: "e1 = pre @ [EvDo (deprovisionRequest token),
                      EvLog ''Device deprovisioned due to hardware changes.'']"
         "client_Do w (deprovisionRequest token) = Inr resp" "StatusCode resp = 200"
      by blast
    have E: "st = Exited" "ev = e1" using Cons.prems C True by simp_all
    have "w # ws = [] @ w # ws" by simp
    with P E show ?thesis by blast
  next
    case False
    obtain st2 e2 s2 where M: "mainLoop L halURL period ws s1 = (st2, e2, s2)"
      by (cases "mainLoop L halURL period ws s1")
    have E: "st = st2" "ev = e1 @ e2" using Cons.prems C M False by simp_all
    note IH = Cons.IH [OF M]
    show ?thesis
    proof (cases st2)
      case Running
      with IH X False E show ?thesis by simp
    next
      case Exited
      with IH obtain ws1 w' ws2 pre token resp where
        P: "ws = ws1 @ w' # ws2"
           "e2 = pre @ [EvDo (deprovisionRequest token),
                        EvLog ''Device deprovisioned due to hardware changes.'']"
           "client_Do w' (deprovisionRequest token) = Inr resp" "StatusCode resp = 200"
        by blast
      have "w # ws = (w # ws1) @ w' # ws2" using P(1) by simp
      moreover have "ev = (e1 @ pre) @ [EvDo (deprovisionRequest token),
                        EvLog ''Device deprovisioned due to hardware changes.'']"
        using E P(2) by simp
      ultimately show ?thesis using P(3,4) E Exited by blast
    qed
  qed
qed

lemma cycle_salt_kept:
  assumes "cycle L halURL period w s = (out, ev, s')"
      and "files s saltFile = Some data"
      and "read_fault w saltFile = None"
  shows "files s' saltFile = Some data \<and> writesTo saltFile ev = [] \<and> EvRand \<notin> set ev
       \<and> (\<forall>h. EvLog (''Calculated hardware hash: '' @ h) \<in> set ev \<longrightarrow>
             (\<exists>d j. json_Marshal L d = Inr j \<and> h = digest L (TrimSpace data) j))"
proof -
  have G: "writesTo saltFile ev1 = [] \<and> EvRand \<notin> set ev1 \<and> (\<forall>m. EvLog m \<notin> set ev1)"
    if "collectHardwareData L w halURL = (r, ev1)" for r ev1
    using collect_gets [OF that] observe_gets by auto
  have H: "\<exists>j. json_Marshal L d = Inr j \<and> r = Inr (digest L (TrimSpace data) j)
             \<and> ev2 = [EvRead saltFile] \<and> fs = files s"
    if "calculateSaltedHash L w (files s) d = (r, ev2, fs)" for d r ev2 fs
    using that calculateSaltedHash_loaded [of w "files s" data L d] assms(2,3)
      json_Marshal_Inr [of L d]
    by auto
  note A = writesTo_append
  from assms(1) show ?thesis
  proof (cases rule: cycle_cases)
    case (collect_failed err ev1)
    with G [OF collect_failed(1)] assms(2) show ?thesis by (simp add: A)
  next
    case (hash_failed d ev1 err ev2 fs)
    with H [OF hash_failed(2)] show ?thesis by simp
  next
    case (baseline d ev1 hwID ev2 fs)
    with G [OF baseline(1)] H [OF baseline(2)] assms(2) show ?thesis
      by (auto simp: A saltFile_def hwidFile_def ioutil_WriteFile_def split: option.splits)
  next
    case (token_failed d ev1 hwID ev2 fs err)
    with G [OF token_failed(1)] H [OF token_failed(2)] assms(2) show ?thesis
      by (auto simp: A)
  next
    case (deprovision_failed d ev1 hwID ev2 fs token err)
    with G [OF deprovision_failed(1)] H [OF deprovision_failed(2)] assms(2) show ?thesis
      by (auto simp: A)
  next
    case (deprovisioned d ev1 hwID ev2 fs token)
    with G [OF deprovisioned(1)] H [OF deprovisioned(2)] assms(2) show ?thesis
      by (auto simp: A)
  next
    case (unchanged d ev1 hwID ev2 fs)
    with G [OF unchanged(1)] H [OF unchanged(2)] assms(2) show ?thesis
      by (auto simp: A)
  qed
qed

lemma mainInit_eq:
  "\<exists>halURL period ev0.
     mainInit environ w fs =
       (halURL, period, ev0,
        \<lparr>files = fs,
         initialHdID = (case fst (loadFromFile w fs hwidFile) of Inl err \<Rightarrow> [] | Inr v \<Rightarrow> v)\<rparr>)
     \<and> requests ev0 = [] \<and> sleeps ev0 = [] \<and> writesTo n ev0 = []
     \<and> EvLog ''Device deprovisioned due to hardware changes.'' \<notin> set ev0"
  by (auto simp: mainInit_def Let_def loadFromFile_def split: sum.splits prod.splits)

subsection \<open>Evaluating concrete runs\<close>

lemma byteAt_div: "byteAt h i = (unat h div 2 ^ (8 * (31 - i))) mod 256"
  by (simp only: byteAt_def unat_drop_bit_eq) (simp only: drop_bit_eq_div)

lemma concat_zero_bytes:
  "(\<forall>i \<in> set xs. f i = ''00'') \<Longrightarrow> concat (map f xs) = replicate (2 * length xs) (CHR ''0'')"
  by (induction xs) auto

lemma upt_32_split: "[0..<32] = [0..<30] @ [30, 31]"
  by code_simp

lemma sixty_zeros:
  "replicate 60 (CHR ''0'') = ''000000000000000000000000000000000000000000000000000000000000''"
  by code_simp

lemma Sprintf_x_small:
  assumes "unat h < 65536"
  shows "Sprintf_x h =
           ''000000000000000000000000000000000000000000000000000000000000''
           @ hexByte (unat h div 256) @ hexByte (unat h mod 256)"
proof -
  have z: "unat h div 2 ^ (8 * (31 - i)) = 0" if "i < 30" for i
  proof -
    from that have "(2::nat) ^ 16 \<le> 2 ^ (8 * (31 - i))"
      by (intro power_increasing) auto
    with assms show ?thesis by simp
  qed
  have "\<forall>i \<in> set [0..<30]. hexByte (byteAt h i) = ''00''"
    using z by (simp add: byteAt_div hexByte_def ldigits_def)
  from concat_zero_bytes [OF this]
  have A: "concat (map (\<lambda>i. hexByte (byteAt h i)) [0..<30]) = replicate 60 (CHR ''0'')"
    by simp
  have B: "byteAt h 30 = unat h div 256" "byteAt h 31 = unat h mod 256"
    using assms by (simp_all add: byteAt_div)
  show ?thesis
    unfolding Sprintf_x_def upt_32_split
    by (simp add: A B sixty_zeros del: upt_Suc)
qed

lemma salt_zero: "EncodeToString (replicate 16 (CHR 0x00)) = ''AAAAAAAAAAAAAAAAAAAAAA==''"
  by code_simp

lemma salt_ones: "EncodeToString (replicate 16 (CHR 0xFF)) = ''/////////////////////w==''"
  by code_simp

lemmas run_defs =
  main_def mainInit_def getEnv_def defaultHALURL_def defaultPeriod_def Itoa_def Atoi_def
  isDigit_def digitsVal_def ldigits_def loadFromFile_def ioutil_ReadFile_def hwidFile_def
  saltFile_def cycle_def collect_unfold fetchEndpoint_def endpointURL_def defaultPort_def
  toyLib_def parseToMap_def calculateSaltedHash_def json_Marshal_def encodeMap_def
  fieldName_def generateSalt_def saveToFile_def ioutil_WriteFile_def digest_def
  loadAuthToken_def deprovisionDevice_def http_NewRequest_def deprovisionURL_def
  deprovisionRequest_def sleepDuration_def Sprintf_x_small hexByte_def
  TrimSpace_def TrimLeft_def TrimRight_def asciiSpace_def space2_def space3_def
  salt_zero salt_ones Let_def

lemmas world_defs =
  quietWorld_def changedWorld_def lspciDownWorld_def fullDiskWorld_def tornWriteWorld_def
  saltFaultWorld_def
  quietSalt_def quietID_def changedID_def identityStore_def monitoring_def
  monitoringWithToken_def quietData_def changedData_def halGets_def

section \<open>The claims\<close>

subsection \<open>C1: drift invokes the deprovision call with a fresh token\<close>

text \<open>
  Claim C1, as amended. When a baseline is present (\<open>initialHdID\<close> is not empty) and
  the fingerprint computed in a cycle differs from it, the cycle reads the local
  token record exactly once. If the read succeeds, the cycle sends exactly one
  deprovision request, whose \<open>Authorization\<close> header is the trimmed content that the
  record has in this cycle; if the read fails, the cycle sends no request.
\<close>

theorem drift_cycle_deprovision:
  assumes "collectHardwareData L w halURL = (Inr d, ev1)"
      and "calculateSaltedHash L w (files s) d = (Inr hwID, ev2, fs)"
      and "initialHdID s \<noteq> []"
      and "hwID \<noteq> initialHdID s"
  shows "\<exists>out ev s'. cycle L halURL period w s = (out, ev, s')
           \<and> readsOf ''local-api'' ev = 1
           \<and> (case ioutil_ReadFile w (files s) ''local-api'' of
                Inl err \<Rightarrow> out = TokenFailed \<and> requests ev = []
              | Inr token \<Rightarrow>
                  (out = Deprovisioned \<or> out = DeprovisionFailed)
                  \<and> requests ev = [deprovisionRequest (TrimSpace token)])"
proof -
  obtain out ev s' where C: "cycle L halURL period w s = (out, ev, s')"
    by (cases "cycle L halURL period w s")
  from collect_gets [OF assms(1)] obtain us where U: "ev1 = map EvGet us" by blast
  note O = hash_observe [OF assms(2)] observe_gets requests_append readsOf_append
  from C have "readsOf ''local-api'' ev = 1
           \<and> (case ioutil_ReadFile w (files s) ''local-api'' of
                Inl err \<Rightarrow> out = TokenFailed \<and> requests ev = []
              | Inr token \<Rightarrow>
                  (out = Deprovisioned \<or> out = DeprovisionFailed)
                  \<and> requests ev = [deprovisionRequest (TrimSpace token)])"
  proof (cases rule: cycle_cases)
    case (collect_failed err ev1)
    with assms show ?thesis by simp
  next
    case (hash_failed d ev1 err ev2 fs)
    with assms show ?thesis by simp
  next
    case (baseline d ev1 hwID ev2 fs)
    with assms show ?thesis by simp
  next
    case (token_failed d' ev1' hwID' ev2' fs' err)
    with assms U O show ?thesis by simp
  next
    case (deprovision_failed d' ev1' hwID' ev2' fs' token err)
    with assms U O show ?thesis by simp
  next
    case (deprovisioned d' ev1' hwID' ev2' fs' token)
    with assms U O show ?thesis by simp
  next
    case (unchanged d ev1 hwID ev2 fs)
    with assms show ?thesis by simp
  qed
  with C show ?thesis by blast
qed

text \<open>
  The theorem at the changed hardware, with the token \<open>token-123\<close> in the record.
\<close>

theorem drift_cycle_deprovision_witness:
  "collectHardwareData toyLib changedWorld ''iofog'' = (Inr changedData, halGets)
   \<and> calculateSaltedHash toyLib changedWorld (files monitoringWithToken) changedData
       = (Inr changedID, [EvRead saltFile], files monitoringWithToken)
   \<and> initialHdID monitoringWithToken \<noteq> []
   \<and> changedID \<noteq> initialHdID monitoringWithToken
   \<and> (\<exists>out ev s'. cycle toyLib ''iofog'' 60 changedWorld monitoringWithToken = (out, ev, s')
         \<and> readsOf ''local-api'' ev = 1
         \<and> (out = Deprovisioned \<or> out = DeprovisionFailed)
         \<and> requests ev =
             [\<lparr>Method = ''DELETE'', URL = ''http://iofog:54321/v2/deprovision'',
               Header = [(''Authorization'', ''token-123'')]\<rparr>])"
proof -
  have h1: "collectHardwareData toyLib changedWorld ''iofog'' = (Inr changedData, halGets)"
    by (simp add: run_defs world_defs)
  have h2: "calculateSaltedHash toyLib changedWorld (files monitoringWithToken) changedData
       = (Inr changedID, [EvRead saltFile], files monitoringWithToken)"
    by (simp add: run_defs world_defs)
  have h3: "initialHdID monitoringWithToken \<noteq> []"
    by (simp add: world_defs)
  have h4: "changedID \<noteq> initialHdID monitoringWithToken"
    by (simp add: world_defs)
  have r: "ioutil_ReadFile changedWorld (files monitoringWithToken) ''local-api'' = Inr ''  token-123 ''"
    by (simp add: run_defs world_defs)
  have t: "TrimSpace ''  token-123 '' = ''token-123''"
    by (simp add: run_defs)
  from drift_cycle_deprovision [of toyLib changedWorld "''iofog''" changedData halGets
      monitoringWithToken changedID "[EvRead saltFile]" "files monitoringWithToken" 60]
    h1 h2 h3 h4
  show ?thesis
    by (simp add: r t deprovisionRequest_def deprovisionURL_def)
qed

text \<open>
  The claim as stated fails when the token record cannot be read: the baseline is
  present, the fingerprint differs, and the cycle ends without any request.
\<close>

theorem drift_without_token_sends_nothing:
  "cycle toyLib ''iofog'' 60 changedWorld monitoring =
     (TokenFailed,
      [EvGet ''http://iofog:54331/hal/hwc/lscpu'', EvGet ''http://iofog:54331/hal/hwc/lspci'',
       EvGet ''http://iofog:54331/hal/hwc/lsusb'', EvGet ''http://iofog:54331/hal/hwc/lshw'',
       EvGet ''http://iofog:54331/hal/hwc/proc/cpuinfo'',
       EvRead ''id/salt-key'',
       EvLog ''Calculated hardware hash: 0000000000000000000000000000000000000000000000000000000000001cf3'',
       EvRead ''local-api'',
       EvLog ''Error loading auth token: failed to read local-api file: open local-api: no such file or directory''],
      monitoring)
   \<and> initialHdID monitoring = ''0000000000000000000000000000000000000000000000000000000000001a23''
   \<and> requests (fst (snd (cycle toyLib ''iofog'' 60 changedWorld monitoring))) = []"
  by (simp add: run_defs world_defs)

subsection \<open>C2: the first successful cycle sets the baseline\<close>

text \<open>
  Claim C2, as amended. Starting without a baseline record, \<open>main\<close> enters the loop
  with an empty \<open>initialHdID\<close>; a cycle whose collection and fingerprint succeed
  then ends at \<open>BaselineSet\<close>: it sets \<open>initialHdID\<close> to the fingerprint, writes the
  fingerprint to the baseline record exactly once, and the record holds it
  afterwards if that write succeeds (after a failed write the record is what the
  failed write has left, if anything). The cycle sends no deprovision request,
  and it does not reach the
  comparison: it does not read the token record, does not log "unchanged" and
  does not sleep.
\<close>

theorem first_cycle_sets_baseline:
  assumes "fs0 hwidFile = None"
      and "mainInit environ w0 fs0 = (halURL, period, ev0, s0)"
      and "collectHardwareData L w halURL = (Inr d, ev1)"
      and "calculateSaltedHash L w fs0 d = (Inr hwID, ev2, fs)"
  shows "s0 = \<lparr>files = fs0, initialHdID = []\<rparr>
       \<and> (\<exists>ev s'. cycle L halURL period w s0 = (BaselineSet, ev, s')
            \<and> initialHdID s' = hwID
            \<and> writesTo hwidFile ev = [hwID]
            \<and> files s' hwidFile
                = (case write_fault w hwidFile of None \<Rightarrow> Some hwID | Some err \<Rightarrow> write_left w hwidFile)
            \<and> requests ev = [] \<and> readsOf ''local-api'' ev = 0 \<and> sleeps ev = []
            \<and> EvLog ''Hardware configuration unchanged.'' \<notin> set ev)"
proof -
  have "fst (loadFromFile w0 fs0 hwidFile) \<noteq> Inr v" for v
    using assms(1) by (simp add: loadFromFile_Inr)
  then have "(case fst (loadFromFile w0 fs0 hwidFile) of Inl err \<Rightarrow> [] | Inr v \<Rightarrow> v) = []"
    by (cases "fst (loadFromFile w0 fs0 hwidFile)") auto
  with mainInit_eq [of environ w0 fs0 hwidFile] assms(2)
  have S: "s0 = \<lparr>files = fs0, initialHdID = []\<rparr>" by auto
  from collect_gets [OF assms(3)] obtain us where U: "ev1 = map EvGet us" by blast
  have H: "calculateSaltedHash L w (files s0) d = (Inr hwID, ev2, fs)"
    using assms(4) S by simp
  note O = hash_observe [OF H] observe_gets requests_append readsOf_append sleeps_append
    writesTo_append
  have F: "fs hwidFile = None" using O(6) S assms(1) by simp
  show ?thesis
    using S U O(1-4,7-) F cycle_hashed [OF assms(3) H, of period]
    by (auto simp: Let_def hwidFile_def ioutil_WriteFile_def split: option.splits)
qed

text \<open>
  The theorem at the empty store in the quiet world.
\<close>

theorem first_cycle_sets_baseline_witness:
  "Map.empty hwidFile = None
   \<and> mainInit Map.empty quietWorld Map.empty
       = (''iofog'', 60, [EvRead hwidFile, EvLog ''HWID not found, will calculate on first run.''],
          \<lparr>files = Map.empty, initialHdID = []\<rparr>)
   \<and> collectHardwareData toyLib quietWorld ''iofog'' = (Inr quietData, halGets)
   \<and> calculateSaltedHash toyLib quietWorld Map.empty quietData
       = (Inr quietID,
          [EvRead saltFile, EvLog ''Salt not found, generating new one.'', EvRand,
           EvWrite saltFile quietSalt],
          [saltFile \<mapsto> quietSalt])
   \<and> (\<exists>ev s'. cycle toyLib ''iofog'' 60 quietWorld \<lparr>files = Map.empty, initialHdID = []\<rparr>
                  = (BaselineSet, ev, s')
         \<and> initialHdID s' = quietID
         \<and> writesTo hwidFile ev = [quietID]
         \<and> files s' hwidFile = Some quietID
         \<and> requests ev = [] \<and> readsOf ''local-api'' ev = 0 \<and> sleeps ev = []
         \<and> EvLog ''Hardware configuration unchanged.'' \<notin> set ev)"
proof -
  have h1: "Map.empty hwidFile = (None :: string option)" by simp
  have h2: "mainInit Map.empty quietWorld Map.empty
       = (''iofog'', 60, [EvRead hwidFile, EvLog ''HWID not found, will calculate on first run.''],
          \<lparr>files = Map.empty, initialHdID = []\<rparr>)"
    by (simp add: run_defs world_defs)
  have h3: "collectHardwareData toyLib quietWorld ''iofog'' = (Inr quietData, halGets)"
    by (simp add: run_defs world_defs)
  have h4: "calculateSaltedHash toyLib quietWorld Map.empty quietData
       = (Inr quietID,
          [EvRead saltFile, EvLog ''Salt not found, generating new one.'', EvRand,
           EvWrite saltFile quietSalt],
          [saltFile \<mapsto> quietSalt])"
    by (simp add: run_defs world_defs)
  have w: "write_fault quietWorld hwidFile = None"
    by (simp add: world_defs)
  from first_cycle_sets_baseline [of Map.empty Map.empty quietWorld "''iofog''" 60
      "[EvRead hwidFile, EvLog ''HWID not found, will calculate on first run.'']"
      "\<lparr>files = Map.empty, initialHdID = []\<rparr>" toyLib quietWorld quietData halGets quietID
      "[EvRead saltFile, EvLog ''Salt not found, generating new one.'', EvRand,
           EvWrite saltFile quietSalt]" "[saltFile \<mapsto> quietSalt]"]
    h1 h2 h3 h4
  show ?thesis by (simp add: w)
qed

text \<open>
  The claim as stated fails when the disk is full: the first successful cycle
  leaves no baseline record behind.
\<close>

theorem full_disk_baseline_not_persisted:
  "main toyLib Map.empty Map.empty quietWorld [fullDiskWorld] =
     (Running,
      [EvRead ''id/hw-id'',
       EvLog ''HWID not found, will calculate on first run.'',
       EvGet ''http://iofog:54331/hal/hwc/lscpu'', EvGet ''http://iofog:54331/hal/hwc/lspci'',
       EvGet ''http://iofog:54331/hal/hwc/lsusb'', EvGet ''http://iofog:54331/hal/hwc/lshw'',
       EvGet ''http://iofog:54331/hal/hwc/proc/cpuinfo'',
       EvRead ''id/salt-key'', EvLog ''Salt not found, generating new one.'', EvRand,
       EvWrite ''id/salt-key'' ''AAAAAAAAAAAAAAAAAAAAAA=='',
       EvLog ''Calculated hardware hash: 0000000000000000000000000000000000000000000000000000000000001a23'',
       EvWrite ''id/hw-id'' ''0000000000000000000000000000000000000000000000000000000000001a23'',
       EvLog ''Error saving HWID to file: open id/hw-id: no space left on device'',
       EvLog ''Initial hardware ID set.''],
      \<lparr>files = [''id/salt-key'' \<mapsto> ''AAAAAAAAAAAAAAAAAAAAAA==''],
       initialHdID = ''0000000000000000000000000000000000000000000000000000000000001a23''\<rparr>)
   \<and> files (snd (snd (main toyLib Map.empty Map.empty quietWorld [fullDiskWorld]))) ''id/hw-id'' = None"
  by (simp add: run_defs world_defs)

subsection \<open>C3: the fingerprint is the hex of the salted SHA-256\<close>

text \<open>
  Claim C3. The serialization of a snapshot lists its five categories in the
  fixed order \<open>lscpu\<close>, \<open>lspci\<close>, \<open>lsusb\<close>, \<open>lshw\<close>, \<open>cpuinfo\<close>. With the salt loaded
  from the salt record, and with a salt just generated and saved, the function
  \<open>calculateSaltedHash\<close> returns \<open>Sprintf_x\<close> of \<open>Sum256\<close> of the salt followed by the
  serialization. Every fingerprint it returns is of this form and consists of 64
  lowercase hexadecimal digits; calling the function again on the resulting store
  returns the same fingerprint, and so does calling it on a snapshot whose maps
  hold the same entries in another order.
\<close>

theorem fingerprint_is_salted_sha256_hex:
  "\<exists>jsonData.
     jsonData = ''{'' @ fieldName ''lscpu'' @ encodeMap L (Lscpu d)
                @ '','' @ fieldName ''lspci'' @ encodeMap L (Lspci d)
                @ '','' @ fieldName ''lsusb'' @ encodeMap L (Lsusb d)
                @ '','' @ fieldName ''lshw'' @ encodeMap L (Lshw d)
                @ '','' @ fieldName ''cpuinfo'' @ encodeMap L (CpuInfo d) @ ''}''
   \<and> json_Marshal L d = Inr jsonData
   \<and> (\<forall>salt. fst (loadFromFile w fs saltFile) = Inr salt \<longrightarrow>
         calculateSaltedHash L w fs d
           = (Inr (Sprintf_x (sha256_Sum256 L (salt @ jsonData))), [EvRead saltFile], fs))
   \<and> (\<forall>err salt.
         fst (loadFromFile w fs saltFile) = Inl err \<longrightarrow>
         fst (generateSalt w) = Inr salt \<longrightarrow>
         write_fault w saltFile = None \<longrightarrow>
           calculateSaltedHash L w fs d
             = (Inr (Sprintf_x (sha256_Sum256 L (salt @ jsonData))),
                [EvRead saltFile, EvLog ''Salt not found, generating new one.'', EvRand,
                 EvWrite saltFile salt],
                fs(saltFile \<mapsto> salt)))
   \<and> (\<forall>h ev fs'.
         calculateSaltedHash L w fs d = (Inr h, ev, fs') \<longrightarrow>
           length h = 64 \<and> set h \<subseteq> set ''0123456789abcdef''
         \<and> (\<exists>salt. h = Sprintf_x (sha256_Sum256 L (salt @ jsonData))
               \<and> (fst (loadFromFile w fs saltFile) = Inr salt \<and> fs' = fs
                  \<or> (\<exists>err. fst (loadFromFile w fs saltFile) = Inl err)
                    \<and> fst (generateSalt w) = Inr salt \<and> fs' = fs(saltFile \<mapsto> salt)))
         \<and> (\<forall>w'. read_fault w' saltFile = None \<longrightarrow>
               calculateSaltedHash L w' fs' d = (Inr h, [EvRead saltFile], fs'))
         \<and> (\<forall>d'. sameData d d' \<longrightarrow> calculateSaltedHash L w fs d' = (Inr h, ev, fs')))"
proof -
  define jsonData where
    "jsonData = ''{'' @ fieldName ''lscpu'' @ encodeMap L (Lscpu d)
                @ '','' @ fieldName ''lspci'' @ encodeMap L (Lspci d)
                @ '','' @ fieldName ''lsusb'' @ encodeMap L (Lsusb d)
                @ '','' @ fieldName ''lshw'' @ encodeMap L (Lshw d)
                @ '','' @ fieldName ''cpuinfo'' @ encodeMap L (CpuInfo d) @ ''}''"
  have J: "json_Marshal L d = Inr jsonData"
    by (simp add: json_Marshal_def jsonData_def)
  have loaded: "calculateSaltedHash L w fs d
           = (Inr (Sprintf_x (sha256_Sum256 L (salt @ jsonData))), [EvRead saltFile], fs)"
    if "fst (loadFromFile w fs saltFile) = Inr salt" for salt
  proof -
    from that obtain data where
      D: "read_fault w saltFile = None" "fs saltFile = Some data" "salt = TrimSpace data"
      by (auto simp: loadFromFile_Inr)
    show ?thesis
      using calculateSaltedHash_loaded [of w fs data L d] D J by (simp add: digest_def)
  qed
  have generated: "calculateSaltedHash L w fs d
             = (Inr (Sprintf_x (sha256_Sum256 L (salt @ jsonData))),
                [EvRead saltFile, EvLog ''Salt not found, generating new one.'', EvRand,
                 EvWrite saltFile salt],
                fs(saltFile \<mapsto> salt))"
    if "fst (loadFromFile w fs saltFile) = Inl err" "fst (generateSalt w) = Inr salt"
       "write_fault w saltFile = None" for err salt
    using calculateSaltedHash_generated [OF that, of L d] J by (simp add: digest_def)
  have returned:
    "length h = 64 \<and> set h \<subseteq> set ''0123456789abcdef''
         \<and> (\<exists>salt. h = Sprintf_x (sha256_Sum256 L (salt @ jsonData))
               \<and> (fst (loadFromFile w fs saltFile) = Inr salt \<and> fs' = fs
                  \<or> (\<exists>err. fst (loadFromFile w fs saltFile) = Inl err)
                    \<and> fst (generateSalt w) = Inr salt \<and> fs' = fs(saltFile \<mapsto> salt)))
         \<and> (\<forall>w'. read_fault w' saltFile = None \<longrightarrow>
               calculateSaltedHash L w' fs' d = (Inr h, [EvRead saltFile], fs'))
         \<and> (\<forall>d'. sameData d d' \<longrightarrow> calculateSaltedHash L w fs d' = (Inr h, ev, fs'))"
    if R: "calculateSaltedHash L w fs d = (Inr h, ev, fs')" for h ev fs'
  proof -
    from calculateSaltedHash_Inr [OF R] J obtain salt where
      H: "h = digest L salt jsonData" and
      C: "fst (loadFromFile w fs saltFile) = Inr salt \<and> fs' = fs
          \<or> (\<exists>err. fst (loadFromFile w fs saltFile) = Inl err)
            \<and> fst (generateSalt w) = Inr salt \<and> fs' = fs(saltFile \<mapsto> salt)"
      by auto
    have T: "\<exists>data. fs' saltFile = Some data \<and> TrimSpace data = salt"
      using C by (auto simp: loadFromFile_Inr generateSalt_trimmed)
    have again: "calculateSaltedHash L w' fs' d = (Inr h, [EvRead saltFile], fs')"
      if "read_fault w' saltFile = None" for w'
    proof -
      from T obtain data where D: "fs' saltFile = Some data" "TrimSpace data = salt" by blast
      show ?thesis
        using calculateSaltedHash_loaded [of w' fs' data L d] that J H D by simp
    qed
    have same: "calculateSaltedHash L w fs d' = (Inr h, ev, fs')" if "sameData d d'" for d'
      using calculateSaltedHash_marshal [OF json_Marshal_same [OF that], of L w fs] R by simp
    have len: "length h = 64" by (simp add: H digest_def length_Sprintf_x)
    have low: "set h \<subseteq> set ''0123456789abcdef''"
      using set_Sprintf_x [of "sha256_Sum256 L (salt @ jsonData)"]
      by (simp add: H digest_def ldigits_def)
    from H C again same len low show ?thesis unfolding digest_def by blast
  qed
  from J loaded generated returned jsonData_def show ?thesis by blast
qed

text \<open>
  The theorem at the quiet hardware on an empty store, and at a snapshot whose
  \<open>lscpu\<close> entries are swapped.
\<close>

theorem fingerprint_is_salted_sha256_hex_witness:
  "calculateSaltedHash toyLib quietWorld Map.empty quietData
     = (Inr quietID,
        [EvRead saltFile, EvLog ''Salt not found, generating new one.'', EvRand,
         EvWrite saltFile quietSalt],
        [saltFile \<mapsto> quietSalt])
   \<and> json_Marshal toyLib quietData
       = Inr (''{'' @ fieldName ''lscpu'' @ ''{},'' @ fieldName ''lspci'' @ ''{},''
              @ fieldName ''lsusb'' @ ''{},'' @ fieldName ''lshw'' @ ''{},''
              @ fieldName ''cpuinfo'' @ ''{}}'')
   \<and> (\<exists>jsonData. json_Marshal toyLib quietData = Inr jsonData
         \<and> quietID = Sprintf_x (sha256_Sum256 toyLib (quietSalt @ jsonData)))
   \<and> length quietID = 64
   \<and> calculateSaltedHash toyLib changedWorld [saltFile \<mapsto> quietSalt] quietData
       = (Inr quietID, [EvRead saltFile], [saltFile \<mapsto> quietSalt])
   \<and> calculateSaltedHash toyLib quietWorld identityStore cpuData
       = (Inr ''000000000000000000000000000000000000000000000000000000000000213a'',
          [EvRead saltFile], identityStore)
   \<and> calculateSaltedHash toyLib quietWorld identityStore cpuDataSwapped
       = (Inr ''000000000000000000000000000000000000000000000000000000000000213a'',
          [EvRead saltFile], identityStore)"
proof -
  have h: "calculateSaltedHash toyLib quietWorld Map.empty quietData
     = (Inr quietID,
        [EvRead saltFile, EvLog ''Salt not found, generating new one.'', EvRand,
         EvWrite saltFile quietSalt],
        [saltFile \<mapsto> quietSalt])"
    by (simp add: run_defs world_defs)
  have g: "fst (generateSalt quietWorld) = Inr quietSalt"
    by (simp add: run_defs world_defs)
  have l: "fst (loadFromFile quietWorld Map.empty saltFile) \<noteq> Inr salt" for salt
    by (simp add: loadFromFile_Inr)
  have r: "read_fault changedWorld saltFile = None"
    by (simp add: world_defs)
  have m: "json_Marshal toyLib quietData
       = Inr (''{'' @ fieldName ''lscpu'' @ ''{},'' @ fieldName ''lspci'' @ ''{},''
              @ fieldName ''lsusb'' @ ''{},'' @ fieldName ''lshw'' @ ''{},''
              @ fieldName ''cpuinfo'' @ ''{}}'')"
    by (simp add: json_Marshal_def encodeMap_def toyLib_def quietData_def)
  from fingerprint_is_salted_sha256_hex [of toyLib quietData quietWorld Map.empty]
  obtain jsonData where
    j: "json_Marshal toyLib quietData = Inr jsonData" and
    c: "\<forall>h ev fs'.
         calculateSaltedHash toyLib quietWorld Map.empty quietData = (Inr h, ev, fs') \<longrightarrow>
           length h = 64
         \<and> (\<exists>salt. h = Sprintf_x (sha256_Sum256 toyLib (salt @ jsonData))
               \<and> (fst (loadFromFile quietWorld Map.empty saltFile) = Inr salt \<and> fs' = Map.empty
                  \<or> (\<exists>err. fst (loadFromFile quietWorld Map.empty saltFile) = Inl err)
                    \<and> fst (generateSalt quietWorld) = Inr salt \<and> fs' = [saltFile \<mapsto> salt]))
         \<and> (\<forall>w'. read_fault w' saltFile = None \<longrightarrow>
               calculateSaltedHash toyLib w' fs' quietData = (Inr h, [EvRead saltFile], fs'))"
    by blast
  from c h obtain salt where
    c2: "quietID = Sprintf_x (sha256_Sum256 toyLib (salt @ jsonData))" and
    c3: "length quietID = 64" and
    c4: "fst (loadFromFile quietWorld Map.empty saltFile) = Inr salt
         \<or> fst (generateSalt quietWorld) = Inr salt" and
    c5: "\<forall>w'. read_fault w' saltFile = None \<longrightarrow>
               calculateSaltedHash toyLib w' [saltFile \<mapsto> quietSalt] quietData
                 = (Inr quietID, [EvRead saltFile], [saltFile \<mapsto> quietSalt])"
    by blast
  from c4 l g have "salt = quietSalt" by auto
  with j c2 have e: "\<exists>jsonData. json_Marshal toyLib quietData = Inr jsonData
         \<and> quietID = Sprintf_x (sha256_Sum256 toyLib (quietSalt @ jsonData))"
    by blast
  from c5 r have a: "calculateSaltedHash toyLib changedWorld [saltFile \<mapsto> quietSalt] quietData
       = (Inr quietID, [EvRead saltFile], [saltFile \<mapsto> quietSalt])"
    by blast
  have k: "calculateSaltedHash toyLib quietWorld identityStore cpuData
       = (Inr ''000000000000000000000000000000000000000000000000000000000000213a'',
          [EvRead saltFile], identityStore)"
    by (simp add: run_defs world_defs cpuData_def less_eq_char_def less_char_def)
  have s: "sameData cpuData cpuDataSwapped"
    by (simp add: sameData_def sameMap_def cpuData_def cpuDataSwapped_def quietData_def)
  from fingerprint_is_salted_sha256_hex [of toyLib cpuData quietWorld identityStore] k s
  have k': "calculateSaltedHash toyLib quietWorld identityStore cpuDataSwapped
       = (Inr ''000000000000000000000000000000000000000000000000000000000000213a'',
          [EvRead saltFile], identityStore)"
    by blast
  from h m e c3 a k k' show ?thesis by blast
qed

subsection \<open>C4: the process exits only after a successful deprovision\<close>

text \<open>
  Claim C4. If \<open>main\<close> has exited, then the last two events of the process are the
  deprovision request of one of its cycles and the log line that reports the
  deprovision, and the control plane answered that request with status 200. If
  \<open>main\<close> is still running after the cycles given, no deprovision has been reported:
  every other way through a cycle goes on to the next cycle.
\<close>

theorem exits_only_after_successful_deprovision:
  assumes "main L environ fs0 w0 ws = (st, ev, s)"
  shows "(st = Exited \<longrightarrow>
            (\<exists>ws1 w ws2 pre token resp.
               ws = ws1 @ w # ws2
             \<and> ev = pre @ [EvDo (deprovisionRequest token),
                           EvLog ''Device deprovisioned due to hardware changes.'']
             \<and> client_Do w (deprovisionRequest token) = Inr resp \<and> StatusCode resp = 200))
       \<and> (st = Running \<longrightarrow>
            EvLog ''Device deprovisioned due to hardware changes.'' \<notin> set ev)"
proof -
  from mainInit_eq [of environ w0 fs0 hwidFile] obtain halURL period ev0 s0 where
    I: "mainInit environ w0 fs0 = (halURL, period, ev0, s0)"
       "EvLog ''Device deprovisioned due to hardware changes.'' \<notin> set ev0"
    by blast
  obtain st' evs s' where M: "mainLoop L halURL period ws s0 = (st', evs, s')"
    by (cases "mainLoop L halURL period ws s0")
  have E: "st = st'" "ev = ev0 @ evs" using assms I(1) M by (simp_all add: main_def)
  note X = mainLoop_exit [OF M]
  show ?thesis
  proof (cases st')
    case Running
    with X E I(2) show ?thesis by simp
  next
    case Exited
    with X obtain ws1 w ws2 pre token resp where
      P: "ws = ws1 @ w # ws2"
         "evs = pre @ [EvDo (deprovisionRequest token),
                       EvLog ''Device deprovisioned due to hardware changes.'']"
         "client_Do w (deprovisionRequest token) = Inr resp" "StatusCode resp = 200"
      by blast
    have "ev = (ev0 @ pre) @ [EvDo (deprovisionRequest token),
                       EvLog ''Device deprovisioned due to hardware changes.'']"
      using E P(2) by simp
    with P(1,3,4) E Exited show ?thesis by blast
  qed
qed

text \<open>
  The theorem at a run of three cycles: quiet hardware, changed hardware, quiet
  hardware. With a token record the second cycle deprovisions and the process
  exits; without one the process is still running after the third cycle.
\<close>

theorem exits_only_after_successful_deprovision_witness:
  "main toyLib Map.empty [''local-api'' \<mapsto> ''  token-123 ''] quietWorld [quietWorld, changedWorld, quietWorld]
     = (Exited,
        [EvRead ''id/hw-id'', EvLog ''HWID not found, will calculate on first run.'']
        @ halGets @
        [EvRead ''id/salt-key'', EvLog ''Salt not found, generating new one.'', EvRand,
         EvWrite ''id/salt-key'' quietSalt,
         EvLog (''Calculated hardware hash: '' @ quietID),
         EvWrite ''id/hw-id'' quietID,
         EvLog ''Initial hardware ID set.'']
        @ halGets @
        [EvRead ''id/salt-key'',
         EvLog (''Calculated hardware hash: '' @ changedID),
         EvRead ''local-api'',
         EvDo (deprovisionRequest ''token-123''),
         EvLog ''Device deprovisioned due to hardware changes.''],
        monitoringWithToken)
   \<and> (\<exists>ws1 w ws2 pre token resp.
         [quietWorld, changedWorld, quietWorld] = ws1 @ w # ws2
       \<and> client_Do w (deprovisionRequest token) = Inr resp \<and> StatusCode resp = 200)
   \<and> main toyLib Map.empty Map.empty quietWorld [quietWorld, changedWorld, quietWorld]
     = (Running,
        [EvRead ''id/hw-id'', EvLog ''HWID not found, will calculate on first run.'']
        @ halGets @
        [EvRead ''id/salt-key'', EvLog ''Salt not found, generating new one.'', EvRand,
         EvWrite ''id/salt-key'' quietSalt,
         EvLog (''Calculated hardware hash: '' @ quietID),
         EvWrite ''id/hw-id'' quietID,
         EvLog ''Initial hardware ID set.'']
        @ halGets @
        [EvRead ''id/salt-key'',
         EvLog (''Calculated hardware hash: '' @ changedID),
         EvRead ''local-api'',
         EvLog ''Error loading auth token: failed to read local-api file: open local-api: no such file or directory'']
        @ halGets @
        [EvRead ''id/salt-key'',
         EvLog (''Calculated hardware hash: '' @ quietID),
         EvLog ''Hardware configuration unchanged.'', EvSleep 60000000000],
        monitoring)"
proof -
  have h: "main toyLib Map.empty [''local-api'' \<mapsto> ''  token-123 ''] quietWorld [quietWorld, changedWorld, quietWorld]
     = (Exited,
        [EvRead ''id/hw-id'', EvLog ''HWID not found, will calculate on first run.'']
        @ halGets @
        [EvRead ''id/salt-key'', EvLog ''Salt not found, generating new one.'', EvRand,
         EvWrite ''id/salt-key'' quietSalt,
         EvLog (''Calculated hardware hash: '' @ quietID),
         EvWrite ''id/hw-id'' quietID,
         EvLog ''Initial hardware ID set.'']
        @ halGets @
        [EvRead ''id/salt-key'',
         EvLog (''Calculated hardware hash: '' @ changedID),
         EvRead ''local-api'',
         EvDo (deprovisionRequest ''token-123''),
         EvLog ''Device deprovisioned due to hardware changes.''],
        monitoringWithToken)"
    by (simp add: run_defs world_defs) (auto simp: fun_eq_iff)
  have k: "main toyLib Map.empty Map.empty quietWorld [quietWorld, changedWorld, quietWorld]
     = (Running,
        [EvRead ''id/hw-id'', EvLog ''HWID not found, will calculate on first run.'']
        @ halGets @
        [EvRead ''id/salt-key'', EvLog ''Salt not found, generating new one.'', EvRand,
         EvWrite ''id/salt-key'' quietSalt,
         EvLog (''Calculated hardware hash: '' @ quietID),
         EvWrite ''id/hw-id'' quietID,
         EvLog ''Initial hardware ID set.'']
        @ halGets @
        [EvRead ''id/salt-key'',
         EvLog (''Calculated hardware hash: '' @ changedID),
         EvRead ''local-api'',
         EvLog ''Error loading auth token: failed to read local-api file: open local-api: no such file or directory'']
        @ halGets @
        [EvRead ''id/salt-key'',
         EvLog (''Calculated hardware hash: '' @ quietID),
         EvLog ''Hardware configuration unchanged.'', EvSleep 60000000000],
        monitoring)"
    by (simp add: run_defs world_defs)
  from exits_only_after_successful_deprovision [OF h]
  have "\<exists>ws1 w ws2 pre token resp.
         [quietWorld, changedWorld, quietWorld] = ws1 @ w # ws2
       \<and> client_Do w (deprovisionRequest token) = Inr resp \<and> StatusCode resp = 200"
    by blast
  with h k show ?thesis by blast
qed

subsection \<open>C5: the delay after a failed cycle\<close>

text \<open>
  Claim C5 says that after an error in a cycle the loop starts the next cycle only
  after the normal sleep interval, as it does after an unchanged cycle. The code
  leaves a failed cycle through \<open>continue\<close>, which skips the \<open>time.Sleep\<close> at the end
  of the loop body. In two cycles in which the HAL service does not answer for
  \<open>lspci\<close>, the second cycle's first request follows the first cycle's error
  message with no sleep in between, while two unchanged cycles sleep sixty seconds
  each.
\<close>

theorem error_cycles_do_not_sleep:
  "main toyLib Map.empty Map.empty quietWorld [lspciDownWorld, lspciDownWorld] =
     (Running,
      [EvRead ''id/hw-id'', EvLog ''HWID not found, will calculate on first run.'',
       EvGet ''http://iofog:54331/hal/hwc/lscpu'', EvGet ''http://iofog:54331/hal/hwc/lspci'',
       EvLog ''Error collecting hardware data: failed to fetch http://iofog:54331/hal/hwc/lspci: dial tcp: connection refused'',
       EvGet ''http://iofog:54331/hal/hwc/lscpu'', EvGet ''http://iofog:54331/hal/hwc/lspci'',
       EvLog ''Error collecting hardware data: failed to fetch http://iofog:54331/hal/hwc/lspci: dial tcp: connection refused''],
      \<lparr>files = Map.empty, initialHdID = []\<rparr>)
   \<and> sleeps (fst (snd (main toyLib Map.empty Map.empty quietWorld [lspciDownWorld, lspciDownWorld]))) = []
   \<and> sleeps (fst (snd (mainLoop toyLib ''iofog'' 60 [quietWorld, quietWorld] monitoring)))
       = [60000000000, 60000000000]"
  by (simp add: run_defs world_defs)

subsection \<open>C6: the salt is kept\<close>

text \<open>
  Claim C6, as amended. Once the salt record holds a salt, it is neither
  regenerated nor overwritten as long as every read of the record succeeds: after
  any number of cycles the record holds the same salt, no cycle has written to it
  or used the random source, and every fingerprint logged is the digest of a
  snapshot under that (trimmed) salt.
\<close>

theorem salt_kept_while_readable:
  assumes "mainLoop L halURL period ws s = (st, ev, s')"
      and "files s saltFile = Some data"
      and "\<forall>w \<in> set ws. read_fault w saltFile = None"
  shows "files s' saltFile = Some data \<and> writesTo saltFile ev = [] \<and> EvRand \<notin> set ev
       \<and> (\<forall>h. EvLog (''Calculated hardware hash: '' @ h) \<in> set ev \<longrightarrow>
             (\<exists>d j. json_Marshal L d = Inr j \<and> h = digest L (TrimSpace data) j))"
  using assms
proof (induction ws arbitrary: s st ev s')
  case Nil
  then show ?case by simp
next
  case (Cons w ws)
  obtain out e1 s1 where C: "cycle L halURL period w s = (out, e1, s1)"
    by (cases "cycle L halURL period w s")
  have R: "read_fault w saltFile = None" using Cons.prems(3) by simp
  note K = cycle_salt_kept [OF C Cons.prems(2) R]
  show ?case
  proof (cases "out = Deprovisioned")
    case True
    with Cons.prems(1) C have "ev = e1" "s' = s1" by simp_all
    with K show ?thesis by simp
  next
    case False
    obtain st2 e2 s2 where M: "mainLoop L halURL period ws s1 = (st2, e2, s2)"
      by (cases "mainLoop L halURL period ws s1")
    have E: "ev = e1 @ e2" "s' = s2" using Cons.prems(1) C M False by simp_all
    have S1: "files s1 saltFile = Some data" using K by simp
    have W: "\<forall>w \<in> set ws. read_fault w saltFile = None" using Cons.prems(3) by simp
    note IH = Cons.IH [OF M S1 W]
    from K IH E show ?thesis by (auto simp: writesTo_append)
  qed
qed

text \<open>
  The theorem at two cycles of the monitoring process, the second on changed
  hardware.
\<close>

theorem salt_kept_while_readable_witness:
  "mainLoop toyLib ''iofog'' 60 [quietWorld, changedWorld] monitoring
     = (Running,
        halGets @
        [EvRead ''id/salt-key'', EvLog (''Calculated hardware hash: '' @ quietID),
         EvLog ''Hardware configuration unchanged.'', EvSleep 60000000000]
        @ halGets @
        [EvRead ''id/salt-key'', EvLog (''Calculated hardware hash: '' @ changedID),
         EvRead ''local-api'',
         EvLog ''Error loading auth token: failed to read local-api file: open local-api: no such file or directory''],
        monitoring)
   \<and> files monitoring saltFile = Some quietSalt
   \<and> read_fault quietWorld saltFile = None \<and> read_fault changedWorld saltFile = None
   \<and> (\<exists>d j. json_Marshal toyLib d = Inr j \<and> changedID = digest toyLib (TrimSpace quietSalt) j)"
proof -
  have h1: "mainLoop toyLib ''iofog'' 60 [quietWorld, changedWorld] monitoring
     = (Running,
        halGets @
        [EvRead ''id/salt-key'', EvLog (''Calculated hardware hash: '' @ quietID),
         EvLog ''Hardware configuration unchanged.'', EvSleep 60000000000]
        @ halGets @
        [EvRead ''id/salt-key'', EvLog (''Calculated hardware hash: '' @ changedID),
         EvRead ''local-api'',
         EvLog ''Error loading auth token: failed to read local-api file: open local-api: no such file or directory''],
        monitoring)"
    by (simp add: run_defs world_defs)
  have h2: "files monitoring saltFile = Some quietSalt"
    by (simp add: world_defs saltFile_def)
  have h3: "\<forall>w \<in> set [quietWorld, changedWorld]. read_fault w saltFile = None"
    by (simp add: world_defs)
  from salt_kept_while_readable [OF h1 h2 h3]
  have "\<exists>d j. json_Marshal toyLib d = Inr j \<and> changedID = digest toyLib (TrimSpace quietSalt) j"
    by simp
  with h1 h2 h3 show ?thesis by simp
qed

text \<open>
  The claim as stated fails when a read of the salt record fails: the second cycle
  takes the salt for missing, generates another one and overwrites the record.
\<close>

theorem salt_read_fault_regenerates_salt:
  "main toyLib Map.empty Map.empty quietWorld [quietWorld, saltFaultWorld] =
     (Running,
      [EvRead ''id/hw-id'', EvLog ''HWID not found, will calculate on first run.'',
       EvGet ''http://iofog:54331/hal/hwc/lscpu'', EvGet ''http://iofog:54331/hal/hwc/lspci'',
       EvGet ''http://iofog:54331/hal/hwc/lsusb'', EvGet ''http://iofog:54331/hal/hwc/lshw'',
       EvGet ''http://iofog:54331/hal/hwc/proc/cpuinfo'',
       EvRead ''id/salt-key'', EvLog ''Salt not found, generating new one.'', EvRand,
       EvWrite ''id/salt-key'' ''AAAAAAAAAAAAAAAAAAAAAA=='',
       EvLog ''Calculated hardware hash: 0000000000000000000000000000000000000000000000000000000000001a23'',
       EvWrite ''id/hw-id'' ''0000000000000000000000000000000000000000000000000000000000001a23'',
       EvLog ''Initial hardware ID set.'',
       EvGet ''http://iofog:54331/hal/hwc/lscpu'', EvGet ''http://iofog:54331/hal/hwc/lspci'',
       EvGet ''http://iofog:54331/hal/hwc/lsusb'', EvGet ''http://iofog:54331/hal/hwc/lshw'',
       EvGet ''http://iofog:54331/hal/hwc/proc/cpuinfo'',
       EvRead ''id/salt-key'', EvLog ''Salt not found, generating new one.'', EvRand,
       EvWrite ''id/salt-key'' ''/////////////////////w=='',
       EvLog ''Calculated hardware hash: 00000000000000000000000000000000000000000000000000000000000018df'',
       EvRead ''local-api'',
       EvLog ''Error loading auth token: failed to read local-api file: open local-api: no such file or directory''],
      \<lparr>files = [''id/salt-key'' \<mapsto> ''/////////////////////w=='',
                ''id/hw-id'' \<mapsto> ''0000000000000000000000000000000000000000000000000000000000001a23''],
       initialHdID = ''0000000000000000000000000000000000000000000000000000000000001a23''\<rparr>)
   \<and> writesTo ''id/salt-key''
         (fst (snd (main toyLib Map.empty Map.empty quietWorld [quietWorld, saltFaultWorld])))
       = [''AAAAAAAAAAAAAAAAAAAAAA=='', ''/////////////////////w=='']"
  by (simp add: run_defs world_defs) (auto simp: fun_eq_iff)

subsection \<open>C7: a missing record and a failed read\<close>

text \<open>
  Claim C7, as amended. A read of the identity store that finds no record returns
  an error, as every failed read does; there is no separate result for an absent
  record. A read returns a value exactly when the record exists and can be read,
  and the value is its trimmed content. The callers treat every error as "no
  record yet": \<open>calculateSaltedHash\<close> generates and saves a new salt, whatever the
  error of the read was, and \<open>main\<close> starts with an empty baseline.
\<close>

theorem read_errors_are_treated_as_absent:
  "(fs name = None \<longrightarrow> (\<exists>err. fst (loadFromFile w fs name) = Inl err))
   \<and> (fst (loadFromFile w fs name) = Inr v \<longleftrightarrow>
        read_fault w name = None \<and> (\<exists>data. fs name = Some data \<and> v = TrimSpace data))
   \<and> ((\<exists>err. fst (loadFromFile w fs saltFile) = Inl err) \<longrightarrow>
        (\<exists>j. json_Marshal L d = Inr j
           \<and> fst (calculateSaltedHash L w fs d) =
               (case fst (generateSalt w) of
                  Inl err \<Rightarrow> Inl (Wrap ''failed to generate salt'' err)
                | Inr salt \<Rightarrow>
                    (case write_fault w saltFile of
                       Some err \<Rightarrow> Inl (Wrap ''failed to save salt to file'' err)
                     | None \<Rightarrow> Inr (digest L salt j)))))
   \<and> ((\<exists>err. fst (loadFromFile w fs hwidFile) = Inl err) \<longrightarrow>
        (\<exists>halURL period ev0.
           mainInit environ w fs = (halURL, period, ev0, \<lparr>files = fs, initialHdID = []\<rparr>)))"
proof (intro conjI impI)
  assume "fs name = None"
  then show "\<exists>err. fst (loadFromFile w fs name) = Inl err"
    by (auto simp: loadFromFile_def ioutil_ReadFile_def split: option.splits)
next
  show "fst (loadFromFile w fs name) = Inr v \<longleftrightarrow>
        read_fault w name = None \<and> (\<exists>data. fs name = Some data \<and> v = TrimSpace data)"
    by (rule loadFromFile_Inr)
next
  assume "\<exists>err. fst (loadFromFile w fs saltFile) = Inl err"
  then show "\<exists>j. json_Marshal L d = Inr j
           \<and> fst (calculateSaltedHash L w fs d) =
               (case fst (generateSalt w) of
                  Inl err \<Rightarrow> Inl (Wrap ''failed to generate salt'' err)
                | Inr salt \<Rightarrow>
                    (case write_fault w saltFile of
                       Some err \<Rightarrow> Inl (Wrap ''failed to save salt to file'' err)
                     | None \<Rightarrow> Inr (digest L salt j)))"
    by (auto simp: calculateSaltedHash_def json_Marshal_def saveToFile_def ioutil_WriteFile_def
        split: sum.splits prod.splits option.splits)
next
  assume "\<exists>err. fst (loadFromFile w fs hwidFile) = Inl err"
  with mainInit_eq [of environ w fs hwidFile]
  show "\<exists>halURL period ev0.
           mainInit environ w fs = (halURL, period, ev0, \<lparr>files = fs, initialHdID = []\<rparr>)"
    by auto
qed

text \<open>
  The theorem at a missing salt record, at a salt record that cannot be read, and
  at a readable one.
\<close>

theorem read_errors_are_treated_as_absent_witness:
  "fst (loadFromFile quietWorld Map.empty saltFile)
     = Inl (New ''open id/salt-key: no such file or directory'')
   \<and> fst (loadFromFile saltFaultWorld identityStore saltFile)
     = Inl (New ''read id/salt-key: input/output error'')
   \<and> fst (loadFromFile quietWorld identityStore saltFile) = Inr quietSalt
   \<and> fst (calculateSaltedHash toyLib saltFaultWorld identityStore quietData)
     = Inr ''00000000000000000000000000000000000000000000000000000000000018df''
   \<and> (\<exists>halURL period ev0.
         mainInit Map.empty quietWorld Map.empty
           = (halURL, period, ev0, \<lparr>files = Map.empty, initialHdID = []\<rparr>))"
proof -
  have a: "fst (loadFromFile quietWorld Map.empty saltFile)
     = Inl (New ''open id/salt-key: no such file or directory'')"
    by (simp add: run_defs world_defs)
  have b: "fst (loadFromFile saltFaultWorld identityStore saltFile)
     = Inl (New ''read id/salt-key: input/output error'')"
    by (simp add: run_defs world_defs)
  have c: "fst (loadFromFile quietWorld identityStore saltFile) = Inr quietSalt"
    by (simp add: run_defs world_defs)
  have g: "fst (generateSalt saltFaultWorld) = Inr ''/////////////////////w==''"
    by (simp add: run_defs world_defs)
  have w: "write_fault saltFaultWorld saltFile = None"
    by (simp add: world_defs)
  have e: "digest toyLib ''/////////////////////w==''
             (''{'' @ fieldName ''lscpu'' @ ''{},'' @ fieldName ''lspci'' @ ''{},''
              @ fieldName ''lsusb'' @ ''{},'' @ fieldName ''lshw'' @ ''{},''
              @ fieldName ''cpuinfo'' @ ''{}}'')
           = ''00000000000000000000000000000000000000000000000000000000000018df''"
    by (simp add: run_defs)
  have m: "json_Marshal toyLib quietData
       = Inr (''{'' @ fieldName ''lscpu'' @ ''{},'' @ fieldName ''lspci'' @ ''{},''
              @ fieldName ''lsusb'' @ ''{},'' @ fieldName ''lshw'' @ ''{},''
              @ fieldName ''cpuinfo'' @ ''{}}'')"
    by (simp add: json_Marshal_def encodeMap_def toyLib_def quietData_def)
  note T = read_errors_are_treated_as_absent
  from T [of identityStore saltFile saltFaultWorld v toyLib quietData environ for v environ] b g w m e
  have d: "fst (calculateSaltedHash toyLib saltFaultWorld identityStore quietData)
     = Inr ''00000000000000000000000000000000000000000000000000000000000018df''"
    by simp
  from T [of Map.empty hwidFile quietWorld v toyLib quietData Map.empty for v]
  have f: "\<exists>halURL period ev0.
         mainInit Map.empty quietWorld Map.empty
           = (halURL, period, ev0, \<lparr>files = Map.empty, initialHdID = []\<rparr>)"
    by simp
  from a b c d f show ?thesis by blast
qed

text \<open>
  The claim as stated fails: a missing record is reported as an error, and an
  input/output error on an existing salt record does not abort the cycle, which
  takes the salt for missing and sets a baseline under a new salt.
\<close>

theorem salt_read_fault_does_not_abort:
  "fst (loadFromFile quietWorld Map.empty ''id/salt-key'')
     = Inl (New ''open id/salt-key: no such file or directory'')
   \<and> fst (loadFromFile saltFaultWorld [''id/salt-key'' \<mapsto> ''AAAAAAAAAAAAAAAAAAAAAA==''] ''id/salt-key'')
     = Inl (New ''read id/salt-key: input/output error'')
   \<and> cycle toyLib ''iofog'' 60 saltFaultWorld
       \<lparr>files = [''id/salt-key'' \<mapsto> ''AAAAAAAAAAAAAAAAAAAAAA==''], initialHdID = []\<rparr> =
     (BaselineSet,
      [EvGet ''http://iofog:54331/hal/hwc/lscpu'', EvGet ''http://iofog:54331/hal/hwc/lspci'',
       EvGet ''http://iofog:54331/hal/hwc/lsusb'', EvGet ''http://iofog:54331/hal/hwc/lshw'',
       EvGet ''http://iofog:54331/hal/hwc/proc/cpuinfo'',
       EvRead ''id/salt-key'', EvLog ''Salt not found, generating new one.'', EvRand,
       EvWrite ''id/salt-key'' ''/////////////////////w=='',
       EvLog ''Calculated hardware hash: 00000000000000000000000000000000000000000000000000000000000018df'',
       EvWrite ''id/hw-id'' ''00000000000000000000000000000000000000000000000000000000000018df'',
       EvLog ''Initial hardware ID set.''],
      \<lparr>files = [''id/salt-key'' \<mapsto> ''/////////////////////w=='',
                ''id/hw-id'' \<mapsto> ''00000000000000000000000000000000000000000000000000000000000018df''],
       initialHdID = ''00000000000000000000000000000000000000000000000000000000000018df''\<rparr>)"
  by (simp add: run_defs world_defs)

subsection \<open>C8: collection is all or nothing\<close>

text \<open>
  Claim C8. If the fetch of one of the five endpoints fails (the request, the read
  of the body or the parsing), then \<open>collectHardwareData\<close> returns an error and no
  snapshot. The error is the one of the first endpoint that fails: it names the
  URL of that endpoint and wraps the cause, and no later endpoint is requested.
\<close>

theorem collect_all_or_nothing:
  assumes "e \<in> set endpoints"
      and "fst (fetchEndpoint L w (endpointURL baseURL e)) = Inl err0"
  shows "\<exists>pre e' post err cause.
           endpoints = pre @ e' # post
         \<and> collectHardwareData L w baseURL
             = (Inl err, map (\<lambda>x. EvGet (endpointURL baseURL x)) (pre @ [e']))
         \<and> fst (fetchEndpoint L w (endpointURL baseURL e')) = Inl err
         \<and> (\<forall>x \<in> set pre. \<exists>r. fst (fetchEndpoint L w (endpointURL baseURL x)) = Inr r)
         \<and> (err = Wrap (''failed to fetch '' @ endpointURL baseURL e') cause
            \<and> http_Get w (endpointURL baseURL e') = Inl cause
          \<or> err = Wrap (''failed to read response from '' @ endpointURL baseURL e') cause
            \<and> (\<exists>resp. http_Get w (endpointURL baseURL e') = Inr resp \<and> Body resp = Inl cause)
          \<or> err = Wrap (''failed to parse JSON from '' @ endpointURL baseURL e') cause
            \<and> (\<exists>resp body. http_Get w (endpointURL baseURL e') = Inr resp \<and> Body resp = Inr body
                  \<and> json_Unmarshal L body = Inl cause))"
proof -
  from collectLoop_first_failure [OF assms]
  obtain pre e' post err where
    P: "endpoints = pre @ e' # post"
       "\<forall>x \<in> set pre. \<exists>r. fst (fetchEndpoint L w (endpointURL baseURL x)) = Inr r"
       "fst (fetchEndpoint L w (endpointURL baseURL e')) = Inl err"
       "collectHardwareData L w baseURL
          = (Inl err, map (\<lambda>x. EvGet (endpointURL baseURL x)) (pre @ [e']))"
    unfolding collectHardwareData_def by blast
  from fetchEndpoint_Inl [OF P(3)] P show ?thesis
    by blast
qed

text \<open>
  The theorem at a HAL service that refuses the connection for \<open>lspci\<close>.
\<close>

theorem collect_all_or_nothing_witness:
  "''lspci'' \<in> set endpoints
   \<and> fst (fetchEndpoint toyLib lspciDownWorld (endpointURL ''iofog'' ''lspci''))
       = Inl (Wrap ''failed to fetch http://iofog:54331/hal/hwc/lspci''
                (New ''dial tcp: connection refused''))
   \<and> collectHardwareData toyLib lspciDownWorld ''iofog''
       = (Inl (Wrap ''failed to fetch http://iofog:54331/hal/hwc/lspci''
                 (New ''dial tcp: connection refused'')),
          [EvGet ''http://iofog:54331/hal/hwc/lscpu'', EvGet ''http://iofog:54331/hal/hwc/lspci''])
   \<and> (\<exists>pre e' post err.
         endpoints = pre @ e' # post
       \<and> collectHardwareData toyLib lspciDownWorld ''iofog''
           = (Inl err, map (\<lambda>x. EvGet (endpointURL ''iofog'' x)) (pre @ [e'])))"
proof -
  have h1: "''lspci'' \<in> set endpoints" by (simp add: endpoints_def)
  have h2: "fst (fetchEndpoint toyLib lspciDownWorld (endpointURL ''iofog'' ''lspci''))
       = Inl (Wrap ''failed to fetch http://iofog:54331/hal/hwc/lspci''
                (New ''dial tcp: connection refused''))"
    by (simp add: run_defs world_defs)
  have c: "collectHardwareData toyLib lspciDownWorld ''iofog''
       = (Inl (Wrap ''failed to fetch http://iofog:54331/hal/hwc/lspci''
                 (New ''dial tcp: connection refused'')),
          [EvGet ''http://iofog:54331/hal/hwc/lscpu'', EvGet ''http://iofog:54331/hal/hwc/lspci''])"
    by (simp add: run_defs world_defs)
  from collect_all_or_nothing [OF h1 h2]
  have "\<exists>pre e' post err.
         endpoints = pre @ e' # post
       \<and> collectHardwareData toyLib lspciDownWorld ''iofog''
           = (Inl err, map (\<lambda>x. EvGet (endpointURL ''iofog'' x)) (pre @ [e']))"
    by blast
  with h1 h2 c show ?thesis by blast
qed

subsection \<open>C9: every category is an object\<close>

text \<open>
  Claim C9. \<open>parseToMap\<close> returns the entries of an object as they are and wraps
  every other value as the single entry \<open>data\<close>. When the five endpoints answer
  with values that parse, \<open>collectHardwareData\<close> returns the snapshot whose fields
  are \<open>parseToMap\<close> of these values; and every field of a snapshot that it returns
  is such a map (never \<open>nil\<close>).
\<close>

theorem parseToMap_object_or_wrapped:
  "(\<forall>m. parseToMap (JObject m) = m)
   \<and> ((\<forall>m. data \<noteq> JObject m) \<longrightarrow> parseToMap data = [(''data'', data)])
   \<and> (\<forall>r1 r2 r3 r4 r5.
         fst (fetchEndpoint L w (endpointURL baseURL ''lscpu'')) = Inr r1 \<longrightarrow>
         fst (fetchEndpoint L w (endpointURL baseURL ''lspci'')) = Inr r2 \<longrightarrow>
         fst (fetchEndpoint L w (endpointURL baseURL ''lsusb'')) = Inr r3 \<longrightarrow>
         fst (fetchEndpoint L w (endpointURL baseURL ''lshw'')) = Inr r4 \<longrightarrow>
         fst (fetchEndpoint L w (endpointURL baseURL ''proc/cpuinfo'')) = Inr r5 \<longrightarrow>
           fst (collectHardwareData L w baseURL)
             = Inr \<lparr>Lscpu = Some (parseToMap r1), Lspci = Some (parseToMap r2),
                    Lsusb = Some (parseToMap r3), Lshw = Some (parseToMap r4),
                    CpuInfo = Some (parseToMap r5)\<rparr>)
   \<and> (collectHardwareData L w baseURL = (Inr d, ev) \<longrightarrow>
        (\<exists>r1 r2 r3 r4 r5.
           fst (fetchEndpoint L w (endpointURL baseURL ''lscpu'')) = Inr r1
         \<and> fst (fetchEndpoint L w (endpointURL baseURL ''lspci'')) = Inr r2
         \<and> fst (fetchEndpoint L w (endpointURL baseURL ''lsusb'')) = Inr r3
         \<and> fst (fetchEndpoint L w (endpointURL baseURL ''lshw'')) = Inr r4
         \<and> fst (fetchEndpoint L w (endpointURL baseURL ''proc/cpuinfo'')) = Inr r5
         \<and> d = \<lparr>Lscpu = Some (parseToMap r1), Lspci = Some (parseToMap r2),
                 Lsusb = Some (parseToMap r3), Lshw = Some (parseToMap r4),
                 CpuInfo = Some (parseToMap r5)\<rparr>))"
proof (intro conjI allI impI)
  fix m show "parseToMap (JObject m) = m" by (simp add: parseToMap_def)
next
  assume "\<forall>m. data \<noteq> JObject m"
  then show "parseToMap data = [(''data'', data)]"
    by (cases data) (simp_all add: parseToMap_def)
next
  fix r1 r2 r3 r4 r5
  assume "fst (fetchEndpoint L w (endpointURL baseURL ''lscpu'')) = Inr r1"
         "fst (fetchEndpoint L w (endpointURL baseURL ''lspci'')) = Inr r2"
         "fst (fetchEndpoint L w (endpointURL baseURL ''lsusb'')) = Inr r3"
         "fst (fetchEndpoint L w (endpointURL baseURL ''lshw'')) = Inr r4"
         "fst (fetchEndpoint L w (endpointURL baseURL ''proc/cpuinfo'')) = Inr r5"
  then show "fst (collectHardwareData L w baseURL)
             = Inr \<lparr>Lscpu = Some (parseToMap r1), Lspci = Some (parseToMap r2),
                    Lsusb = Some (parseToMap r3), Lshw = Some (parseToMap r4),
                    CpuInfo = Some (parseToMap r5)\<rparr>"
    by (auto simp: collect_unfold split: prod.splits sum.splits)
next
  assume "collectHardwareData L w baseURL = (Inr d, ev)"
  then show "\<exists>r1 r2 r3 r4 r5.
           fst (fetchEndpoint L w (endpointURL baseURL ''lscpu'')) = Inr r1
         \<and> fst (fetchEndpoint L w (endpointURL baseURL ''lspci'')) = Inr r2
         \<and> fst (fetchEndpoint L w (endpointURL baseURL ''lsusb'')) = Inr r3
         \<and> fst (fetchEndpoint L w (endpointURL baseURL ''lshw'')) = Inr r4
         \<and> fst (fetchEndpoint L w (endpointURL baseURL ''proc/cpuinfo'')) = Inr r5
         \<and> d = \<lparr>Lscpu = Some (parseToMap r1), Lspci = Some (parseToMap r2),
                 Lsusb = Some (parseToMap r3), Lshw = Some (parseToMap r4),
                 CpuInfo = Some (parseToMap r5)\<rparr>"
    by (auto simp: collect_unfold split: prod.splits sum.splits)
qed

text \<open>
  The theorem at a HAL service that answers \<open>lsusb\<close> with an array.
\<close>

theorem parseToMap_object_or_wrapped_witness:
  "parseToMap (JObject [(''cpu'', JString ''x86'')]) = [(''cpu'', JString ''x86'')]
   \<and> parseToMap (JArray []) = [(''data'', JArray [])]
   \<and> parseToMap JNull = [(''data'', JNull)]
   \<and> collectHardwareData toyLib changedWorld ''iofog'' = (Inr changedData, halGets)
   \<and> Lsusb changedData = Some (parseToMap (JArray []))
   \<and> (\<exists>r3. fst (fetchEndpoint toyLib changedWorld (endpointURL ''iofog'' ''lsusb'')) = Inr r3
          \<and> Lsusb changedData = Some (parseToMap r3))"
proof -
  have h: "collectHardwareData toyLib changedWorld ''iofog'' = (Inr changedData, halGets)"
    by (simp add: run_defs world_defs)
  note T = parseToMap_object_or_wrapped
  from T [of JNull toyLib changedWorld "''iofog''" changedData halGets]
  have a: "parseToMap (JObject [(''cpu'', JString ''x86'')]) = [(''cpu'', JString ''x86'')]"
    and b: "parseToMap JNull = [(''data'', JNull)]"
    by simp_all
  from T [of "JArray []" toyLib changedWorld "''iofog''" changedData halGets]
  have c: "parseToMap (JArray []) = [(''data'', JArray [])]"
    by simp
  from T [of JNull toyLib changedWorld "''iofog''" changedData halGets] h
  obtain r1 r2 r3 r4 r5 where
    F: "fst (fetchEndpoint toyLib changedWorld (endpointURL ''iofog'' ''lsusb'')) = Inr r3" and
    D: "changedData = \<lparr>Lscpu = Some (parseToMap r1), Lspci = Some (parseToMap r2),
                 Lsusb = Some (parseToMap r3), Lshw = Some (parseToMap r4),
                 CpuInfo = Some (parseToMap r5)\<rparr>"
    by blast
  from arg_cong [OF D, of Lsusb] have "Lsusb changedData = Some (parseToMap r3)"
    by simp
  with F have d: "\<exists>r3. fst (fetchEndpoint toyLib changedWorld (endpointURL ''iofog'' ''lsusb'')) = Inr r3
          \<and> Lsusb changedData = Some (parseToMap r3)"
    by blast
  have e: "Lsusb changedData = Some (parseToMap (JArray []))"
    using c by (simp add: changedData_def)
  from a b c d e h show ?thesis by blast
qed

subsection \<open>C10: a failed write of the baseline is only logged\<close>

text \<open>
  Claim C10. If the write of the baseline record fails in the cycle that sets the
  baseline, the cycle still ends at \<open>BaselineSet\<close>: the error is logged, \<open>initialHdID\<close>
  is the computed fingerprint (which is not empty), and the record is as it was or
  as the failed write has left it. From then on the process monitors against that
  fingerprint: a cycle that computes it again is unchanged, and however many
  cycles follow, none writes the baseline record.
\<close>

theorem baseline_write_failure_only_logged:
  assumes "collectHardwareData L w halURL = (Inr d, ev1)"
      and "calculateSaltedHash L w (files s) d = (Inr hwID, ev2, fs)"
      and "initialHdID s = []"
      and "write_fault w hwidFile = Some err"
  shows "\<exists>fs1.
           fs1 = (case write_left w hwidFile of None \<Rightarrow> fs | Some rest \<Rightarrow> fs(hwidFile \<mapsto> rest))
         \<and> cycle L halURL period w s =
             (BaselineSet,
              ev1 @ ev2 @ [EvLog (''Calculated hardware hash: '' @ hwID), EvWrite hwidFile hwID,
                           EvLog (''Error saving HWID to file: '' @ Error err),
                           EvLog ''Initial hardware ID set.''],
              \<lparr>files = fs1, initialHdID = hwID\<rparr>)
         \<and> fs1 hwidFile = (case write_left w hwidFile of None \<Rightarrow> files s hwidFile | Some rest \<Rightarrow> Some rest)
         \<and> hwID \<noteq> []
         \<and> (\<forall>ws st ev s'.
               mainLoop L halURL period ws \<lparr>files = fs1, initialHdID = hwID\<rparr> = (st, ev, s') \<longrightarrow>
                 initialHdID s' = hwID \<and> writesTo hwidFile ev = []
                 \<and> files s' hwidFile = fs1 hwidFile)
         \<and> (\<forall>w' d' ev1' ev2' fs'.
               collectHardwareData L w' halURL = (Inr d', ev1') \<longrightarrow>
               calculateSaltedHash L w' fs1 d' = (Inr hwID, ev2', fs') \<longrightarrow>
                 cycle L halURL period w' \<lparr>files = fs1, initialHdID = hwID\<rparr> =
                   (Unchanged,
                    ev1' @ ev2' @ [EvLog (''Calculated hardware hash: '' @ hwID),
                                   EvLog ''Hardware configuration unchanged.'',
                                   EvSleep (sleepDuration period)],
                    \<lparr>files = fs', initialHdID = hwID\<rparr>))"
proof -
  define fs1 where
    "fs1 = (case write_left w hwidFile of None \<Rightarrow> fs | Some rest \<Rightarrow> fs(hwidFile \<mapsto> rest))"
  have W: "snd (ioutil_WriteFile w fs hwidFile hwID) = fs1"
    using assms(4) by (simp add: ioutil_WriteFile_def fs1_def)
  have NE: "hwID \<noteq> []"
    using calculateSaltedHash_Inr [OF assms(2)] digest_not_empty by auto
  have C: "cycle L halURL period w s =
           (BaselineSet,
            ev1 @ ev2 @ [EvLog (''Calculated hardware hash: '' @ hwID), EvWrite hwidFile hwID,
                         EvLog (''Error saving HWID to file: '' @ Error err),
                         EvLog ''Initial hardware ID set.''],
            \<lparr>files = fs1, initialHdID = hwID\<rparr>)"
    using cycle_hashed [OF assms(1,2), of period] assms(3,4) W by (simp add: Let_def)
  have F: "fs1 hwidFile = (case write_left w hwidFile of None \<Rightarrow> files s hwidFile | Some rest \<Rightarrow> Some rest)"
    using hash_observe(6) [OF assms(2)] by (simp add: fs1_def split: option.splits)
  have M: "initialHdID s' = hwID \<and> writesTo hwidFile ev = [] \<and> files s' hwidFile = fs1 hwidFile"
    if "mainLoop L halURL period ws \<lparr>files = fs1, initialHdID = hwID\<rparr> = (st, ev, s')"
    for ws st ev s'
    using mainLoop_baseline_kept [OF that] NE by simp
  have U: "cycle L halURL period w' \<lparr>files = fs1, initialHdID = hwID\<rparr> =
                 (Unchanged,
                  ev1' @ ev2' @ [EvLog (''Calculated hardware hash: '' @ hwID),
                                 EvLog ''Hardware configuration unchanged.'',
                                 EvSleep (sleepDuration period)],
                  \<lparr>files = fs', initialHdID = hwID\<rparr>)"
    if "collectHardwareData L w' halURL = (Inr d', ev1')"
       "calculateSaltedHash L w' fs1 d' = (Inr hwID, ev2', fs')"
    for w' d' ev1' ev2' fs'
    using cycle_hashed [of L w' halURL d' ev1' "\<lparr>files = fs1, initialHdID = hwID\<rparr>" hwID ev2' fs' period]
      that NE by (simp add: Let_def)
  from C F NE M U fs1_def show ?thesis by blast
qed

text \<open>
  The theorem at a full disk and at a torn write, each followed by a quiet cycle.
\<close>

theorem baseline_write_failure_only_logged_witness:
  "collectHardwareData toyLib fullDiskWorld ''iofog'' = (Inr quietData, halGets)
   \<and> calculateSaltedHash toyLib fullDiskWorld Map.empty quietData
       = (Inr quietID,
          [EvRead saltFile, EvLog ''Salt not found, generating new one.'', EvRand,
           EvWrite saltFile quietSalt],
          [saltFile \<mapsto> quietSalt])
   \<and> write_fault fullDiskWorld hwidFile = Some (New ''open id/hw-id: no space left on device'')
   \<and> cycle toyLib ''iofog'' 60 fullDiskWorld \<lparr>files = Map.empty, initialHdID = []\<rparr> =
       (BaselineSet,
        halGets @
        [EvRead saltFile, EvLog ''Salt not found, generating new one.'', EvRand,
         EvWrite saltFile quietSalt,
         EvLog (''Calculated hardware hash: '' @ quietID), EvWrite hwidFile quietID,
         EvLog ''Error saving HWID to file: open id/hw-id: no space left on device'',
         EvLog ''Initial hardware ID set.''],
        \<lparr>files = [saltFile \<mapsto> quietSalt], initialHdID = quietID\<rparr>)
   \<and> cycle toyLib ''iofog'' 60 quietWorld \<lparr>files = [saltFile \<mapsto> quietSalt], initialHdID = quietID\<rparr> =
       (Unchanged,
        halGets @
        [EvRead saltFile, EvLog (''Calculated hardware hash: '' @ quietID),
         EvLog ''Hardware configuration unchanged.'', EvSleep 60000000000],
        \<lparr>files = [saltFile \<mapsto> quietSalt], initialHdID = quietID\<rparr>)
   \<and> cycle toyLib ''iofog'' 60 tornWriteWorld \<lparr>files = Map.empty, initialHdID = []\<rparr> =
       (BaselineSet,
        halGets @
        [EvRead saltFile, EvLog ''Salt not found, generating new one.'', EvRand,
         EvWrite saltFile quietSalt,
         EvLog (''Calculated hardware hash: '' @ quietID), EvWrite hwidFile quietID,
         EvLog ''Error saving HWID to file: write id/hw-id: no space left on device'',
         EvLog ''Initial hardware ID set.''],
        \<lparr>files = [saltFile \<mapsto> quietSalt, hwidFile \<mapsto> []], initialHdID = quietID\<rparr>)"
proof -
  have h1: "collectHardwareData toyLib fullDiskWorld ''iofog'' = (Inr quietData, halGets)"
    by (simp add: run_defs world_defs)
  have h2: "calculateSaltedHash toyLib fullDiskWorld
              (files \<lparr>files = Map.empty, initialHdID = []\<rparr>) quietData
       = (Inr quietID,
          [EvRead saltFile, EvLog ''Salt not found, generating new one.'', EvRand,
           EvWrite saltFile quietSalt],
          [saltFile \<mapsto> quietSalt])"
    by (simp add: run_defs world_defs)
  have h3: "initialHdID \<lparr>files = Map.empty, initialHdID = []\<rparr> = []" by simp
  have h4: "write_fault fullDiskWorld hwidFile = Some (New ''open id/hw-id: no space left on device'')"
    by (simp add: run_defs world_defs)
  have l4: "write_left fullDiskWorld hwidFile = None"
    by (simp add: run_defs world_defs)
  have t1: "collectHardwareData toyLib tornWriteWorld ''iofog'' = (Inr quietData, halGets)"
    by (simp add: run_defs world_defs)
  have t2: "calculateSaltedHash toyLib tornWriteWorld
              (files \<lparr>files = Map.empty, initialHdID = []\<rparr>) quietData
       = (Inr quietID,
          [EvRead saltFile, EvLog ''Salt not found, generating new one.'', EvRand,
           EvWrite saltFile quietSalt],
          [saltFile \<mapsto> quietSalt])"
    by (simp add: run_defs world_defs)
  have t4: "write_fault tornWriteWorld hwidFile = Some (New ''write id/hw-id: no space left on device'')"
    by (simp add: run_defs world_defs)
  have tl: "write_left tornWriteWorld hwidFile = Some []"
    by (simp add: run_defs world_defs)
  have q1: "collectHardwareData toyLib quietWorld ''iofog'' = (Inr quietData, halGets)"
    by (simp add: run_defs world_defs)
  have q2: "calculateSaltedHash toyLib quietWorld [saltFile \<mapsto> quietSalt] quietData
       = (Inr quietID, [EvRead saltFile], [saltFile \<mapsto> quietSalt])"
    by (simp add: run_defs world_defs)
  have sd: "sleepDuration 60 = 60000000000"
    by (simp add: sleepDuration_def)
  from baseline_write_failure_only_logged [OF h1 h2 h3 h4, of 60] l4
  have c1: "cycle toyLib ''iofog'' 60 fullDiskWorld \<lparr>files = Map.empty, initialHdID = []\<rparr> =
       (BaselineSet,
        halGets @
        [EvRead saltFile, EvLog ''Salt not found, generating new one.'', EvRand,
         EvWrite saltFile quietSalt] @
        [EvLog (''Calculated hardware hash: '' @ quietID), EvWrite hwidFile quietID,
         EvLog (''Error saving HWID to file: '' @ Error (New ''open id/hw-id: no space left on device'')),
         EvLog ''Initial hardware ID set.''],
        \<lparr>files = [saltFile \<mapsto> quietSalt], initialHdID = quietID\<rparr>)"
    and u: "\<forall>w' d' ev1' ev2' fs'.
             collectHardwareData toyLib w' ''iofog'' = (Inr d', ev1') \<longrightarrow>
             calculateSaltedHash toyLib w' [saltFile \<mapsto> quietSalt] d' = (Inr quietID, ev2', fs') \<longrightarrow>
               cycle toyLib ''iofog'' 60 w' \<lparr>files = [saltFile \<mapsto> quietSalt], initialHdID = quietID\<rparr> =
                 (Unchanged,
                  ev1' @ ev2' @ [EvLog (''Calculated hardware hash: '' @ quietID),
                                 EvLog ''Hardware configuration unchanged.'',
                                 EvSleep (sleepDuration 60)],
                  \<lparr>files = fs', initialHdID = quietID\<rparr>)"
    by simp_all
  from u q1 q2 have c2: "cycle toyLib ''iofog'' 60 quietWorld \<lparr>files = [saltFile \<mapsto> quietSalt], initialHdID = quietID\<rparr> =
                 (Unchanged,
                  halGets @ [EvRead saltFile] @ [EvLog (''Calculated hardware hash: '' @ quietID),
                                 EvLog ''Hardware configuration unchanged.'',
                                 EvSleep (sleepDuration 60)],
                  \<lparr>files = [saltFile \<mapsto> quietSalt], initialHdID = quietID\<rparr>)"
    by blast
  from baseline_write_failure_only_logged [OF t1 t2 h3 t4, of 60] tl
  have c3: "cycle toyLib ''iofog'' 60 tornWriteWorld \<lparr>files = Map.empty, initialHdID = []\<rparr> =
       (BaselineSet,
        halGets @
        [EvRead saltFile, EvLog ''Salt not found, generating new one.'', EvRand,
         EvWrite saltFile quietSalt] @
        [EvLog (''Calculated hardware hash: '' @ quietID), EvWrite hwidFile quietID,
         EvLog (''Error saving HWID to file: '' @ Error (New ''write id/hw-id: no space left on device'')),
         EvLog ''Initial hardware ID set.''],
        \<lparr>files = [saltFile \<mapsto> quietSalt, hwidFile \<mapsto> []], initialHdID = quietID\<rparr>)"
    by simp
  show ?thesis
    using h1 h2 h4 c1 c2 c3 by (simp add: sd)
qed

section \<open>Further properties\<close>

text \<open>
  A cycle sleeps exactly when it ends at \<open>Unchanged\<close>, and then for the configured
  period: every other way through the loop body goes on without a sleep.
\<close>

lemma cycle_sleeps:
  assumes "cycle L halURL period w s = (out, ev, s')"
  shows "sleeps ev = (if out = Unchanged then [sleepDuration period] else [])"
proof -
  have G: "sleeps ev1 = []" if "collectHardwareData L w halURL = (r, ev1)" for r ev1
    using collect_gets [OF that] observe_gets by auto
  note A = sleeps_append
  from assms show ?thesis
  proof (cases rule: cycle_cases)
    case (collect_failed err ev1)
    with G [OF collect_failed(1)] show ?thesis by (simp add: A)
  next
    case (hash_failed d ev1 err ev2 fs)
    with G [OF hash_failed(1)] hash_observe(2) [OF hash_failed(2)] show ?thesis by (simp add: A)
  next
    case (baseline d ev1 hwID ev2 fs)
    with G [OF baseline(1)] hash_observe(2) [OF baseline(2)] show ?thesis
      by (simp add: A split: option.splits)
  next
    case (token_failed d ev1 hwID ev2 fs err)
    with G [OF token_failed(1)] hash_observe(2) [OF token_failed(2)] show ?thesis by (simp add: A)
  next
    case (deprovision_failed d ev1 hwID ev2 fs token err)
    with G [OF deprovision_failed(1)] hash_observe(2) [OF deprovision_failed(2)] show ?thesis
      by (simp add: A)
  next
    case (deprovisioned d ev1 hwID ev2 fs token)
    with G [OF deprovisioned(1)] hash_observe(2) [OF deprovisioned(2)] show ?thesis by (simp add: A)
  next
    case (unchanged d ev1 hwID ev2 fs)
    with G [OF unchanged(1)] hash_observe(2) [OF unchanged(2)] show ?thesis by (simp add: A)
  qed
qed

text \<open>
  The theorem at a quiet cycle of the monitoring process and at a cycle that sets
  the baseline.
\<close>

theorem cycle_sleeps_witness:
  "cycle toyLib ''iofog'' 60 quietWorld monitoring =
     (Unchanged,
      halGets @
      [EvRead ''id/salt-key'', EvLog (''Calculated hardware hash: '' @ quietID),
       EvLog ''Hardware configuration unchanged.'', EvSleep 60000000000],
      monitoring)
   \<and> sleeps (fst (snd (cycle toyLib ''iofog'' 60 quietWorld monitoring))) = [sleepDuration 60]
   \<and> fst (cycle toyLib ''iofog'' 60 quietWorld \<lparr>files = Map.empty, initialHdID = []\<rparr>) = BaselineSet
   \<and> sleeps (fst (snd (cycle toyLib ''iofog'' 60 quietWorld \<lparr>files = Map.empty, initialHdID = []\<rparr>))) = []"
proof -
  have h: "cycle toyLib ''iofog'' 60 quietWorld monitoring =
     (Unchanged,
      halGets @
      [EvRead ''id/salt-key'', EvLog (''Calculated hardware hash: '' @ quietID),
       EvLog ''Hardware configuration unchanged.'', EvSleep 60000000000],
      monitoring)"
    by (simp add: run_defs world_defs)
  obtain ev s' where k: "cycle toyLib ''iofog'' 60 quietWorld \<lparr>files = Map.empty, initialHdID = []\<rparr>
      = (BaselineSet, ev, s')"
    by (simp add: run_defs world_defs)
  from cycle_sleeps [OF h] cycle_sleeps [OF k] h k show ?thesis by simp
qed

text \<open>
  In the \<open>wasm-binary\<close> variant the salt lives in a variable: once it is not empty
  it is used as it is and stays, and the salt that the first call generates is
  not empty, so that every later call returns the same fingerprint for the same
  snapshot.
\<close>

theorem wasm_salt_kept_in_memory:
  "(salt \<noteq> [] \<longrightarrow>
      (\<exists>j. json_Marshal L d = Inr j
          \<and> calculateSaltedHash_wasm L w salt d = (Inr (digest L salt j), [], salt)))
   \<and> (calculateSaltedHash_wasm L w [] d = (Inr h, ev, salt') \<longrightarrow>
        salt' \<noteq> [] \<and> fst (generateSalt w) = Inr salt'
        \<and> (\<forall>w'. calculateSaltedHash_wasm L w' salt' d = (Inr h, [], salt')))"
proof -
  have one: "\<exists>j. json_Marshal L d = Inr j
          \<and> calculateSaltedHash_wasm L w salt d = (Inr (digest L salt j), [], salt)"
    if "salt \<noteq> []"
    using that by (simp add: calculateSaltedHash_wasm_def json_Marshal_def)
  have two: "salt' \<noteq> [] \<and> fst (generateSalt w) = Inr salt'
        \<and> (\<forall>w'. calculateSaltedHash_wasm L w' salt' d = (Inr h, [], salt'))"
    if A: "calculateSaltedHash_wasm L w [] d = (Inr h, ev, salt')"
  proof -
    from A have G: "fst (generateSalt w) = Inr salt'"
      by (auto simp: calculateSaltedHash_wasm_def json_Marshal_def split: prod.splits sum.splits)
    then have N: "salt' \<noteq> []" by (rule generateSalt_not_empty)
    have "calculateSaltedHash_wasm L w' salt' d = (Inr h, [], salt')" for w'
      using A N
      by (auto simp: calculateSaltedHash_wasm_def json_Marshal_def split: prod.splits sum.splits)
    with G N show ?thesis by blast
  qed
  from one two show ?thesis by blast
qed

text \<open>
  The theorem at the quiet hardware.
\<close>

theorem wasm_salt_kept_in_memory_witness:
  "calculateSaltedHash_wasm toyLib quietWorld [] quietData = (Inr quietID, [EvRand], quietSalt)
   \<and> quietSalt \<noteq> []
   \<and> calculateSaltedHash_wasm toyLib saltFaultWorld quietSalt quietData = (Inr quietID, [], quietSalt)"
proof -
  have h: "calculateSaltedHash_wasm toyLib quietWorld [] quietData = (Inr quietID, [EvRand], quietSalt)"
    by (simp add: calculateSaltedHash_wasm_def run_defs world_defs)
  from wasm_salt_kept_in_memory [of quietSalt toyLib quietData quietWorld quietID "[EvRand]" quietSalt] h
  show ?thesis by simp
qed


end
